theory Spec2Isabelle
  imports Main "HOL-Library.AList"
begin

section \<open>Shared vocabulary of the two servers\<close>

text \<open>
  The repository holds two servers for the same game. \<^verbatim>\<open>src/server.js\<close> is the
  minimal one (placement, removal, undo, reset); \<^verbatim>\<open>src/unnamed/part_000\<close> is the
  hardened one (roles and spectators, timers, rate limiting, rematch, scores). Both are
  embedded here, the hardened one first. Every handler is a function from the server
  state to an outcome and the new state; \<^verbatim>\<open>Date.now()\<close> is the parameter \<open>now\<close> of
  the event, read once per handler run.

  Payload types: a room identifier and a socket identifier are strings, a cell index is
  an integer, a player symbol is \<^verbatim>\<open>"X"\<close> or \<^verbatim>\<open>"O"\<close>.
\<close>

type_synonym roomId = string
type_synonym socketId = string

datatype player = PlayerX | PlayerO

text \<open>A board cell holds \<^verbatim>\<open>""\<close>, \<^verbatim>\<open>"X"\<close> or \<^verbatim>\<open>"O"\<close>.\<close>

datatype cell = Empty | Mark player

text \<open>\<^verbatim>\<open>player === "X" ? "O" : "X"\<close>\<close>

fun other :: "player \<Rightarrow> player" where
  "other PlayerX = PlayerO"
| "other PlayerO = PlayerX"

text \<open>
  \<^verbatim>\<open>board[index]\<close>: reading an array outside its bounds yields \<^verbatim>\<open>undefined\<close>, which
  is \<open>None\<close> here. A placement or removal writes \<^verbatim>\<open>board[index] = v\<close> only behind
  a read of the same index that returned a cell, and \<^verbatim>\<open>undo\<close> writes at an index that
  \<^verbatim>\<open>removeSymbol\<close> read in that way before stacking it; so every write is the in-range
  update \<open>b[nat i := v]\<close> and the array is never extended.
\<close>

definition board_get :: "cell list \<Rightarrow> int \<Rightarrow> cell option" where
  "board_get b i = (if 0 \<le> i \<and> i < int (length b) then Some (b ! nat i) else None)"

text \<open>\<^verbatim>\<open>Array(9).fill("")\<close>\<close>

definition emptyBoard :: "cell list" where
  "emptyBoard = replicate 9 Empty"

text \<open>
  What a handler tells the requesting socket. \<open>Joined r\<close> is an \<^verbatim>\<open>init\<close> message
  whose \<^verbatim>\<open>myPlayer\<close> is \<open>r\<close>, and \<open>JoinedNoRole\<close> one whose \<^verbatim>\<open>myPlayer\<close> is
  \<^verbatim>\<open>undefined\<close>; \<open>Rejected e\<close> is an \<^verbatim>\<open>error\<close>
  notification; \<open>Ignored\<close> is a bare \<^verbatim>\<open>return\<close> with nothing emitted; \<open>Threw\<close> is
  an uncaught \<^verbatim>\<open>TypeError\<close>, raised before the handler has written anything. The
  error names are the specification's; the messages of the source are, in order: Invalid room ID, Too many requests. Slow down!, Game not
  found, You are a spectator, Game is not active, Not your turn, Maximum 3 symbols
  placed. Remove one first., Invalid cell index, Cell already occupied, Cannot remove
  this symbol.
\<close>

datatype error =
    InvalidRoomId | RateLimited | RoomNotFound | SpectatorForbidden | GameNotActive
  | NotYourTurn | SymbolCapReached | InvalidCellIndex | CellOccupied
  | CannotRemoveForeignSymbol

datatype member_role = Active player | Spectator

datatype outcome =
  Accepted | Joined member_role | JoinedNoRole | Rejected error | Ignored | Threw

section \<open>The hardened server\<close>

subsection \<open>Configuration\<close>

definition MAX_SYMBOLS :: nat where "MAX_SYMBOLS = 3"
definition MOVE_TIMEOUT :: int where "MOVE_TIMEOUT = 30000"
definition ROOM_EXPIRY :: int where "ROOM_EXPIRY = 3600000"
definition MAX_ROOM_NAME_LENGTH :: nat where "MAX_ROOM_NAME_LENGTH = 50"
definition RATE_LIMIT_WINDOW :: int where "RATE_LIMIT_WINDOW = 1000"
definition MAX_MOVES_PER_WINDOW :: nat where "MAX_MOVES_PER_WINDOW = 5"

subsection \<open>Data\<close>

datatype winner = Won player | Draw

datatype status = Waiting | Playing | Finished

datatype move_type = Place | Remove

record history_entry =
  h_type :: move_type
  h_player :: player
  h_index :: int
  h_timestamp :: int

record scores =
  score_X :: nat
  score_O :: nat
  score_draws :: nat

record game =
  board :: "cell list"
  currentPlayer :: player
  moves :: "player \<Rightarrow> int list"
  moveHistory :: "history_entry list"
  winner :: "winner option"
  winningLine :: "int list option"
  gameStatus :: status
  createdAt :: int
  lastActivity :: int
  turnStartTime :: "int option"
  scores :: scores

record member =
  role :: member_role
  playerId :: string
  joinedAt :: int

record rate_limit =
  count :: nat
  resetTime :: int

text \<open>
  The four global maps. \<open>players\<close> is kept as an association list in insertion order,
  since the disconnect handler iterates over it; so is the member object of a room,
  whose values are listed and counted. \<^verbatim>\<open>roomTimers\<close> holds two keys per room,
  \<^verbatim>\<open>`${roomId}-move`\<close> and \<^verbatim>\<open>`${roomId}-expiry`\<close>, which never coincide; it is
  split into \<open>moveTimers\<close> and \<open>expiryTimers\<close>. A timer is pending when its entry is
  \<open>Some d\<close>, \<open>d\<close> being the time at which \<^verbatim>\<open>setTimeout\<close> is due; \<^verbatim>\<open>clearTimeout\<close>
  and the firing of the timer both leave \<open>None\<close>.
\<close>

record server =
  games :: "roomId \<Rightarrow> game option"
  players :: "(roomId \<times> (socketId \<times> member) list) list"
  rateLimits :: "socketId \<Rightarrow> rate_limit option"
  moveTimers :: "roomId \<Rightarrow> int option"
  expiryTimers :: "roomId \<Rightarrow> int option"

definition initServer :: server where
  "initServer = \<lparr> games = (\<lambda>_. None), players = [], rateLimits = (\<lambda>_. None),
     moveTimers = (\<lambda>_. None), expiryTimers = (\<lambda>_. None) \<rparr>"

subsection \<open>Utilities\<close>

text \<open>
  \<^verbatim>\<open>isValidRoomId\<close>: a non-empty string of at most 50 characters, all of them matched
  by \<^verbatim>\<open>/^[a-zA-Z0-9-_]+$/\<close>.
\<close>

definition isRoomChar :: "char \<Rightarrow> bool" where
  "isRoomChar c = (let n = (of_char c :: nat) in
     (97 \<le> n \<and> n \<le> 122) \<or> (65 \<le> n \<and> n \<le> 90) \<or> (48 \<le> n \<and> n \<le> 57) \<or> n = 45 \<or> n = 95)"

definition isValidRoomId :: "roomId \<Rightarrow> bool" where
  "isValidRoomId roomId =
     (roomId \<noteq> [] \<and> length roomId \<le> MAX_ROOM_NAME_LENGTH \<and> list_all isRoomChar roomId)"

definition lines :: "(int \<times> int \<times> int) list" where
  "lines = [(0, 1, 2), (3, 4, 5), (6, 7, 8), (0, 3, 6), (1, 4, 7), (2, 5, 8), (0, 4, 8), (2, 4, 6)]"

text \<open>\<^verbatim>\<open>board[a] && board[a] === board[b] && board[a] === board[c]\<close>\<close>

definition lineOwner :: "cell list \<Rightarrow> int \<times> int \<times> int \<Rightarrow> player option" where
  "lineOwner brd l = (case l of (a, b, c) \<Rightarrow>
     (case board_get brd a of
        Some (Mark p) \<Rightarrow>
          if board_get brd b = Some (Mark p) \<and> board_get brd c = Some (Mark p)
          then Some p else None
      | _ \<Rightarrow> None))"

fun firstLine :: "cell list \<Rightarrow> (int \<times> int \<times> int) list \<Rightarrow> (player \<times> int list) option" where
  "firstLine brd [] = None"
| "firstLine brd ((a, b, c) # ls) =
     (case lineOwner brd (a, b, c) of
        Some p \<Rightarrow> Some (p, [a, b, c])
      | None \<Rightarrow> firstLine brd ls)"

text \<open>\<^verbatim>\<open>checkWinner\<close> returns \<^verbatim>\<open>{winner, line}\<close> or \<^verbatim>\<open>null\<close>.\<close>

definition checkWinner :: "cell list \<Rightarrow> (winner \<times> int list option) option" where
  "checkWinner brd =
     (case firstLine brd lines of
        Some (p, l) \<Rightarrow> Some (Won p, Some l)
      | None \<Rightarrow> if list_all (\<lambda>c. c \<noteq> Empty) brd then Some (Draw, None) else None)"

text \<open>
  \<^verbatim>\<open>checkRateLimit\<close>: the entry of the socket, or a fresh one with count 0, is moved
  to a new window when \<open>now\<close> is past its reset time and counted up otherwise; it is
  stored either way.
\<close>

definition checkRateLimit :: "int \<Rightarrow> socketId \<Rightarrow> server \<Rightarrow> bool \<times> server" where
  "checkRateLimit now socketId s =
     (let limit = (case rateLimits s socketId of
                     Some l \<Rightarrow> l
                   | None \<Rightarrow> \<lparr> count = 0, resetTime = now + RATE_LIMIT_WINDOW \<rparr>);
          limit' = (if now > resetTime limit
                    then \<lparr> count = 1, resetTime = now + RATE_LIMIT_WINDOW \<rparr>
                    else limit \<lparr> count := count limit + 1 \<rparr>)
      in (count limit' \<le> MAX_MOVES_PER_WINDOW,
          s \<lparr> rateLimits := (rateLimits s)(socketId \<mapsto> limit') \<rparr>))"

definition createGame :: "int \<Rightarrow> game" where
  "createGame now =
     \<lparr> board = emptyBoard, currentPlayer = PlayerX, moves = (\<lambda>_. []), moveHistory = [],
       winner = None, winningLine = None, gameStatus = Waiting, createdAt = now,
       lastActivity = now, turnStartTime = None,
       scores = \<lparr> score_X = 0, score_O = 0, score_draws = 0 \<rparr> \<rparr>"

text \<open>\<^verbatim>\<open>scores[winner]++\<close> for a player, \<^verbatim>\<open>scores.draws++\<close> for a draw.\<close>

fun incScore :: "winner \<Rightarrow> scores \<Rightarrow> scores" where
  "incScore (Won PlayerX) sc = sc \<lparr> score_X := score_X sc + 1 \<rparr>"
| "incScore (Won PlayerO) sc = sc \<lparr> score_O := score_O sc + 1 \<rparr>"
| "incScore Draw sc = sc \<lparr> score_draws := score_draws sc + 1 \<rparr>"

fun scoreOf :: "player \<Rightarrow> scores \<Rightarrow> nat" where
  "scoreOf PlayerX sc = score_X sc"
| "scoreOf PlayerO sc = score_O sc"

text \<open>
  \<^verbatim>\<open>startMoveTimer\<close>: nothing for a missing or non-playing game; otherwise the pending
  move timer of the room is replaced and the turn's start recorded.
\<close>

definition startMoveTimer :: "int \<Rightarrow> roomId \<Rightarrow> server \<Rightarrow> server" where
  "startMoveTimer now roomId s =
     (case games s roomId of
        None \<Rightarrow> s
      | Some g \<Rightarrow>
          if gameStatus g \<noteq> Playing then s
          else s \<lparr> games := (games s)(roomId \<mapsto> g \<lparr> turnStartTime := Some now \<rparr>),
                   moveTimers := (moveTimers s)(roomId \<mapsto> now + MOVE_TIMEOUT) \<rparr>)"

text \<open>
  The callback that \<^verbatim>\<open>startMoveTimer\<close> schedules. It closes over \<open>roomId\<close> only and
  reads the game again when it runs.
\<close>

definition moveTimerCallback :: "roomId \<Rightarrow> server \<Rightarrow> server" where
  "moveTimerCallback roomId s =
     (case games s roomId of
        None \<Rightarrow> s
      | Some currentGame \<Rightarrow>
          if gameStatus currentGame \<noteq> Playing then s
          else
            let w = other (currentPlayer currentGame)
            in s \<lparr> games := (games s)(roomId \<mapsto>
                      currentGame \<lparr> winner := Some (Won w), gameStatus := Finished,
                                    scores := incScore (Won w) (scores currentGame) \<rparr>) \<rparr>)"

definition clearRoomTimers :: "roomId \<Rightarrow> server \<Rightarrow> server" where
  "clearRoomTimers roomId s =
     s \<lparr> moveTimers := (moveTimers s)(roomId := None),
         expiryTimers := (expiryTimers s)(roomId := None) \<rparr>"

definition cleanupRoom :: "roomId \<Rightarrow> server \<Rightarrow> server" where
  "cleanupRoom roomId s =
     clearRoomTimers roomId
       (s \<lparr> games := (games s)(roomId := None), players := AList.delete roomId (players s) \<rparr>)"

definition startRoomExpiryTimer :: "int \<Rightarrow> roomId \<Rightarrow> server \<Rightarrow> server" where
  "startRoomExpiryTimer now roomId s =
     s \<lparr> expiryTimers := (expiryTimers s)(roomId \<mapsto> now + ROOM_EXPIRY) \<rparr>"

subsection \<open>Handlers\<close>

text \<open>
  \<^verbatim>\<open>joinGame\<close>. The display name is optional (\<^verbatim>\<open>playerName || generatePlayerId()\<close>);
  \<open>genId\<close> is the identifier that \<^verbatim>\<open>generatePlayerId\<close> would draw. The socket
  that is already a member of the room keeps its entry. The outcome carries the role sent
  back in the \<^verbatim>\<open>init\<close> message.
\<close>

definition assignRole :: "member_role list \<Rightarrow> member_role" where
  "assignRole existingRoles =
     (if Active PlayerX \<notin> set existingRoles then Active PlayerX
      else if Active PlayerO \<notin> set existingRoles then Active PlayerO
      else Spectator)"

definition joinGame ::
  "int \<Rightarrow> socketId \<Rightarrow> roomId \<Rightarrow> string option \<Rightarrow> string \<Rightarrow> server \<Rightarrow> outcome \<times> server" where
  "joinGame now socketId roomId playerName genId s0 =
     (if \<not> isValidRoomId roomId then (Rejected InvalidRoomId, s0)
      else
        let s = (if games s0 roomId = None
                 then startRoomExpiryTimer now roomId
                        (s0 \<lparr> games := (games s0)(roomId \<mapsto> createGame now),
                              players := AList.update roomId [] (players s0) \<rparr>)
                 else s0)
        in case map_of (players s) roomId of
             None \<Rightarrow> (Threw, s)
           | Some roomPlayers \<Rightarrow>
               (case map_of roomPlayers socketId of
                  Some myPlayer \<Rightarrow> (Joined (role myPlayer), s)
                | None \<Rightarrow>
                    let existingRoles = map (\<lambda>p. role (snd p)) roomPlayers;
                        pid = (case playerName of
                                 Some n \<Rightarrow> if n \<noteq> [] then n else genId
                               | None \<Rightarrow> genId);
                        r = assignRole existingRoles;
                        s1 = s \<lparr> players := AList.update roomId
                                   (roomPlayers @ [(socketId, \<lparr> role = r, playerId = pid, joinedAt = now \<rparr>)])
                                   (players s) \<rparr>;
                        s2 = (if length existingRoles = 1 \<and> r \<noteq> Spectator
                              then (case games s1 roomId of
                                      None \<Rightarrow> s1
                                    | Some g \<Rightarrow>
                                        startMoveTimer now roomId
                                          (s1 \<lparr> games := (games s1)(roomId \<mapsto> g \<lparr> gameStatus := Playing \<rparr>) \<rparr>))
                              else s1)
                    in (Joined r, s2)))"

text \<open>
  The accepted part of \<^verbatim>\<open>makeMove\<close> (from \<^verbatim>\<open>// Make move\<close> on): the cell is
  marked, the index and the history entry appended, and the board checked. A result ends
  the game, clears the move timer and counts the score; no result passes the turn and
  restarts the timer.
\<close>

definition placeSymbol :: "int \<Rightarrow> roomId \<Rightarrow> player \<Rightarrow> int \<Rightarrow> game \<Rightarrow> server \<Rightarrow> server" where
  "placeSymbol now roomId p index g s =
     (let g1 = g \<lparr> board := (board g)[nat index := Mark p],
                   moves := (moves g)(p := moves g p @ [index]),
                   moveHistory := moveHistory g @
                     [\<lparr> h_type = Place, h_player = p, h_index = index, h_timestamp = now \<rparr>],
                   lastActivity := now \<rparr>
      in case checkWinner (board g1) of
           Some (w, line) \<Rightarrow>
             s \<lparr> games := (games s)(roomId \<mapsto>
                    g1 \<lparr> winner := Some w, winningLine := line, gameStatus := Finished,
                         scores := incScore w (scores g1) \<rparr>),
                 moveTimers := (moveTimers s)(roomId := None) \<rparr>
         | None \<Rightarrow>
             startMoveTimer now roomId
               (s \<lparr> games := (games s)(roomId \<mapsto> g1 \<lparr> currentPlayer := other p \<rparr>) \<rparr>))"

text \<open>
  \<^verbatim>\<open>makeMove\<close>: the checks in the order of the source. A member whose role is
  missing or \<^verbatim>\<open>"spectator"\<close> is turned away first.
\<close>

definition makeMove :: "int \<Rightarrow> socketId \<Rightarrow> roomId \<Rightarrow> int \<Rightarrow> server \<Rightarrow> outcome \<times> server" where
  "makeMove now socketId roomId index s0 =
     (case checkRateLimit now socketId s0 of
        (allowed, s) \<Rightarrow>
          if \<not> allowed then (Rejected RateLimited, s)
          else
            (case (games s roomId, map_of (players s) roomId) of
               (Some g, Some roomPlayers) \<Rightarrow>
                 (case map_option role (map_of roomPlayers socketId) of
                    Some (Active p) \<Rightarrow>
                      if gameStatus g \<noteq> Playing then (Rejected GameNotActive, s)
                      else if p \<noteq> currentPlayer g then (Rejected NotYourTurn, s)
                      else if length (moves g p) \<ge> MAX_SYMBOLS then (Rejected SymbolCapReached, s)
                      else if index < 0 \<or> index > 8 then (Rejected InvalidCellIndex, s)
                      else
                        (case board_get (board g) index of
                           Some Empty \<Rightarrow> (Accepted, placeSymbol now roomId p index g s)
                         | _ \<Rightarrow> (Rejected CellOccupied, s))
                  | _ \<Rightarrow> (Rejected SpectatorForbidden, s))
             | _ \<Rightarrow> (Rejected RoomNotFound, s)))"

text \<open>The accepted part of \<^verbatim>\<open>removeSymbol\<close> (from \<^verbatim>\<open>// Remove symbol\<close> on).\<close>

definition takeSymbol :: "int \<Rightarrow> roomId \<Rightarrow> player \<Rightarrow> int \<Rightarrow> game \<Rightarrow> server \<Rightarrow> server" where
  "takeSymbol now roomId p index g s =
     startMoveTimer now roomId
       (s \<lparr> games := (games s)(roomId \<mapsto>
              g \<lparr> board := (board g)[nat index := Empty],
                  moves := (moves g)(p := filter (\<lambda>i. i \<noteq> index) (moves g p)),
                  moveHistory := moveHistory g @
                    [\<lparr> h_type = Remove, h_player = p, h_index = index, h_timestamp = now \<rparr>],
                  lastActivity := now,
                  currentPlayer := other p \<rparr>) \<rparr>)"

text \<open>
  \<^verbatim>\<open>removeSymbol\<close>. There is no range check on the index: the guard is
  \<^verbatim>\<open>game.board[index] !== player\<close>, which an \<^verbatim>\<open>undefined\<close> cell satisfies.
\<close>

definition removeSymbol :: "int \<Rightarrow> socketId \<Rightarrow> roomId \<Rightarrow> int \<Rightarrow> server \<Rightarrow> outcome \<times> server" where
  "removeSymbol now socketId roomId index s0 =
     (case checkRateLimit now socketId s0 of
        (allowed, s) \<Rightarrow>
          if \<not> allowed then (Rejected RateLimited, s)
          else
            (case (games s roomId, map_of (players s) roomId) of
               (Some g, Some roomPlayers) \<Rightarrow>
                 (case map_option role (map_of roomPlayers socketId) of
                    Some (Active p) \<Rightarrow>
                      if gameStatus g \<noteq> Playing then (Rejected GameNotActive, s)
                      else if p \<noteq> currentPlayer g then (Rejected NotYourTurn, s)
                      else if board_get (board g) index \<noteq> Some (Mark p)
                        then (Rejected CannotRemoveForeignSymbol, s)
                      else (Accepted, takeSymbol now roomId p index g s)
                  | _ \<Rightarrow> (Rejected SpectatorForbidden, s))
             | _ \<Rightarrow> (Ignored, s)))"

text \<open>
  \<^verbatim>\<open>rematch\<close>: for a member with role X or O, a new game with the old scores, set to
  \<^verbatim>\<open>"playing"\<close>, stored, and its move timer started.
\<close>

definition rematch :: "int \<Rightarrow> socketId \<Rightarrow> roomId \<Rightarrow> server \<Rightarrow> outcome \<times> server" where
  "rematch now socketId roomId s =
     (case (games s roomId, map_of (players s) roomId) of
        (Some g, Some roomPlayers) \<Rightarrow>
          (case map_option role (map_of roomPlayers socketId) of
             Some (Active p) \<Rightarrow>
               let newGame = (createGame now) \<lparr> scores := scores g, gameStatus := Playing \<rparr>
               in (Accepted, startMoveTimer now roomId (s \<lparr> games := (games s)(roomId \<mapsto> newGame) \<rparr>))
           | _ \<Rightarrow> (Ignored, s))
      | _ \<Rightarrow> (Ignored, s))"

text \<open>
  \<^verbatim>\<open>disconnect\<close>: one pass of the loop over \<^verbatim>\<open>players.entries()\<close>. The member is
  deleted; an emptied room is cleaned up; otherwise, when the member was X or O, the game
  of the room is set to \<^verbatim>\<open>"waiting"\<close> and its move timer cleared.
\<close>

definition disconnectRoom :: "socketId \<Rightarrow> roomId \<Rightarrow> server \<Rightarrow> server" where
  "disconnectRoom socketId roomId s =
     (case map_of (players s) roomId of
        None \<Rightarrow> s
      | Some roomPlayers \<Rightarrow>
          (case map_of roomPlayers socketId of
             None \<Rightarrow> s
           | Some p \<Rightarrow>
               let roomPlayers' = AList.delete socketId roomPlayers;
                   s1 = s \<lparr> players := AList.update roomId roomPlayers' (players s) \<rparr>
               in if length roomPlayers' = 0 then cleanupRoom roomId s1
                  else if role p \<noteq> Spectator then
                    (case games s1 roomId of
                       None \<Rightarrow> s1
                     | Some g \<Rightarrow>
                         s1 \<lparr> games := (games s1)(roomId \<mapsto> g \<lparr> gameStatus := Waiting \<rparr>),
                              moveTimers := (moveTimers s1)(roomId := None) \<rparr>)
                  else s1))"

definition disconnect :: "socketId \<Rightarrow> server \<Rightarrow> outcome \<times> server" where
  "disconnect socketId s =
     (let s' = fold (disconnectRoom socketId) (map fst (players s)) s
      in (Accepted, s' \<lparr> rateLimits := (rateLimits s')(socketId := None) \<rparr>))"

text \<open>
  The timers firing, at time \<open>now\<close>. \<^verbatim>\<open>setTimeout\<close> runs its callback once, not
  before the time it is due, unless \<^verbatim>\<open>clearTimeout\<close> came first. A move timer that is
  pending and due runs its callback and is pending no more; the expiry timer of a room
  runs \<^verbatim>\<open>cleanupRoom\<close>. A timer that is not pending, or not yet due, does not fire.
\<close>

definition moveTimerFired :: "int \<Rightarrow> roomId \<Rightarrow> server \<Rightarrow> outcome \<times> server" where
  "moveTimerFired now roomId s =
     (case moveTimers s roomId of
        None \<Rightarrow> (Ignored, s)
      | Some d \<Rightarrow>
          if now < d then (Ignored, s)
          else (Accepted,
                moveTimerCallback roomId (s \<lparr> moveTimers := (moveTimers s)(roomId := None) \<rparr>)))"

definition expiryTimerFired :: "int \<Rightarrow> roomId \<Rightarrow> server \<Rightarrow> outcome \<times> server" where
  "expiryTimerFired now roomId s =
     (case expiryTimers s roomId of
        None \<Rightarrow> (Ignored, s)
      | Some d \<Rightarrow> if now < d then (Ignored, s) else (Accepted, cleanupRoom roomId s))"

subsection \<open>Runs of the hardened server\<close>

text \<open>
  The events that change the state. \<^verbatim>\<open>getRoomInfo\<close> and \<^verbatim>\<open>chatMessage\<close> only read
  it and are left out.
\<close>

datatype event =
    JoinGame int socketId roomId "string option" string
  | MakeMove int socketId roomId int
  | RemoveSymbol int socketId roomId int
  | Rematch int socketId roomId
  | Disconnect socketId
  | MoveTimeout int roomId
  | RoomExpired int roomId

fun handle :: "event \<Rightarrow> server \<Rightarrow> outcome \<times> server" where
  "handle (JoinGame now socketId roomId playerName genId) s = joinGame now socketId roomId playerName genId s"
| "handle (MakeMove now socketId roomId index) s = makeMove now socketId roomId index s"
| "handle (RemoveSymbol now socketId roomId index) s = removeSymbol now socketId roomId index s"
| "handle (Rematch now socketId roomId) s = rematch now socketId roomId s"
| "handle (Disconnect socketId) s = disconnect socketId s"
| "handle (MoveTimeout now roomId) s = moveTimerFired now roomId s"
| "handle (RoomExpired now roomId) s = expiryTimerFired now roomId s"

fun run :: "event list \<Rightarrow> server \<Rightarrow> server" where
  "run [] s = s"
| "run (e # es) s = run es (snd (handle e s))"

inductive reachable :: "server \<Rightarrow> bool" where
  reachable_init: "reachable initServer"
| reachable_step: "reachable s \<Longrightarrow> reachable (snd (handle e s))"

section \<open>The minimal server\<close>

text \<open>
  \<^verbatim>\<open>src/server.js\<close>. Its names carry the suffix \<open>_s\<close> where they would clash with
  the hardened server's. The client sends its own symbol with every request
  (\<^verbatim>\<open>player\<close>), there is no role check, no error notification and no timer. The
  removed symbols are stacked for \<^verbatim>\<open>undo\<close>; \<^verbatim>\<open>push\<close> appends and \<^verbatim>\<open>pop\<close> takes the
  last element.
\<close>

record game_s =
  board_s :: "cell list"
  currentPlayer_s :: player
  moves_s :: "player \<Rightarrow> int list"
  removedStack :: "(player \<times> int) list"

text \<open>
  \<^verbatim>\<open>games\<close> and \<^verbatim>\<open>players\<close> are plain objects (\<^verbatim>\<open>{}\<close>) indexed by a room
  identifier that the client chooses freely, and the member object of a room is a plain
  object too. A lookup \<^verbatim>\<open>obj[key]\<close> therefore also finds what the object inherits:
  \<^item> the twelve properties of \<^verbatim>\<open>Object.prototype\<close>, listed in \<open>builtinNames\<close>; each is
    a function, except \<^verbatim>\<open>__proto__\<close>, which reads as the prototype of the object, that is
    as \<^verbatim>\<open>Object.prototype\<close> itself;
  \<^item> every property that \<^verbatim>\<open>joinGame\<close> has written onto \<^verbatim>\<open>Object.prototype\<close>, which
    it does when the room identifier is \<^verbatim>\<open>__proto__\<close>;
  \<^item> for \<^verbatim>\<open>games\<close> only: once \<^verbatim>\<open>resetGame\<close> has run for \<^verbatim>\<open>__proto__\<close>, the
    assignment \<^verbatim>\<open>games["__proto__"] = {...}\<close> has made the new game the prototype of
    \<^verbatim>\<open>games\<close>, and its four fields are inherited.

  \<open>games_s\<close> and \<open>players_s\<close> hold the own properties. The game that is the prototype of
  \<^verbatim>\<open>games\<close> is kept as the entry of \<^verbatim>\<open>__proto__\<close> in \<open>games_s\<close>, since this is what
  \<^verbatim>\<open>games["__proto__"]\<close> reads and writes from then on. \<open>builtinProps\<close> holds, for each
  of the twelve names, the properties that \<^verbatim>\<open>joinGame\<close> has written onto the object the
  name stands for, in the order written; the entry of \<^verbatim>\<open>__proto__\<close> is that of
  \<^verbatim>\<open>Object.prototype\<close> and is inherited by every object.

  Socket identifiers are generated by the server and name no property of a builtin
  object. The file is a CommonJS module without \<^verbatim>\<open>"use strict"\<close>, so writing a property
  of a string does nothing.
\<close>

record server_s =
  games_s :: "roomId \<Rightarrow> game_s option"
  players_s :: "roomId \<Rightarrow> (socketId \<times> player) list option"
  builtinProps :: "roomId \<Rightarrow> (socketId \<times> player) list"

definition initServer_s :: server_s where
  "initServer_s = \<lparr> games_s = (\<lambda>_. None), players_s = (\<lambda>_. None), builtinProps = (\<lambda>_. []) \<rparr>"

definition newGame_s :: game_s where
  "newGame_s = \<lparr> board_s = emptyBoard, currentPlayer_s = PlayerX, moves_s = (\<lambda>_. []),
                 removedStack = [] \<rparr>"

definition builtinNames :: "roomId list" where
  "builtinNames =
     [''__proto__'', ''constructor'', ''hasOwnProperty'', ''isPrototypeOf'',
      ''propertyIsEnumerable'', ''toLocaleString'', ''toString'', ''valueOf'',
      ''__defineGetter__'', ''__defineSetter__'', ''__lookupGetter__'', ''__lookupSetter__'']"

definition gameFields :: "roomId list" where
  "gameFields = [''board'', ''currentPlayer'', ''moves'', ''removedStack'']"

text \<open>The properties written onto \<^verbatim>\<open>Object.prototype\<close>.\<close>

definition protoProps :: "server_s \<Rightarrow> (socketId \<times> player) list" where
  "protoProps s = builtinProps s ''__proto__''"

text \<open>
  \<^verbatim>\<open>games[roomId]\<close> is inherited, for a room identifier that is no own property of
  \<^verbatim>\<open>games\<close>. Every inherited value is truthy (a function, an object, an array or one
  of the strings \<^verbatim>\<open>"X"\<close> and \<^verbatim>\<open>"O"\<close>), and none has a \<^verbatim>\<open>currentPlayer\<close>, a
  \<^verbatim>\<open>board\<close> or a \<^verbatim>\<open>removedStack\<close> of its own or inherited.
\<close>

definition inheritedGame :: "server_s \<Rightarrow> roomId \<Rightarrow> bool" where
  "inheritedGame s roomId =
     (roomId \<in> set builtinNames \<or>
      map_of (protoProps s) roomId \<noteq> None \<or>
      (games_s s ''__proto__'' \<noteq> None \<and> roomId \<in> set gameFields))"

text \<open>
  \<^verbatim>\<open>obj[socket.id]\<close> for an object with the own properties \<open>props\<close>: the own property,
  or else the one inherited from \<^verbatim>\<open>Object.prototype\<close>.
\<close>

definition getProp :: "server_s \<Rightarrow> (socketId \<times> player) list \<Rightarrow> socketId \<Rightarrow> player option" where
  "getProp s props socketId =
     (case map_of props socketId of
        Some p \<Rightarrow> Some p
      | None \<Rightarrow> map_of (protoProps s) socketId)"

text \<open>
  \<^verbatim>\<open>Object.values(obj).includes("X") ? "O" : "X"\<close>, from the own enumerable values of the
  object.
\<close>

definition assignSymbol :: "player list \<Rightarrow> player" where
  "assignSymbol vals = (if PlayerX \<in> set vals then PlayerO else PlayerX)"

text \<open>
  \<^verbatim>\<open>joinGame\<close>. A game and an empty member object are created when \<^verbatim>\<open>games[roomId]\<close>
  is falsy, that is neither own nor inherited. Then \<^verbatim>\<open>players[roomId]\<close> is
  \<^item> the own member object of the room: the socket keeps the symbol it reads there, own
    or inherited, or is given one and entered;
  \<^item> for one of the twelve names, a builtin object: the same, the symbol being written
    onto that object (for \<^verbatim>\<open>__proto__\<close>, onto \<^verbatim>\<open>Object.prototype\<close>);
  \<^item> for a room identifier that is a property written onto \<^verbatim>\<open>Object.prototype\<close>, the
    string \<^verbatim>\<open>"X"\<close> or \<^verbatim>\<open>"O"\<close>: its property of the socket's name reads as the
    inherited one, if any; otherwise the assignment to it does nothing and \<^verbatim>\<open>myPlayer\<close>
    is \<^verbatim>\<open>undefined\<close>;
  \<^item> otherwise \<^verbatim>\<open>undefined\<close> (a game left by \<^verbatim>\<open>resetGame\<close> on a room nobody joined,
    or an inherited field of the game that is the prototype of \<^verbatim>\<open>games\<close>), and
    \<^verbatim>\<open>players[roomId][socket.id]\<close> throws.
\<close>

definition joinGame_s :: "socketId \<Rightarrow> roomId \<Rightarrow> server_s \<Rightarrow> outcome \<times> server_s" where
  "joinGame_s socketId roomId s0 =
     (let s = (if games_s s0 roomId = None \<and> \<not> inheritedGame s0 roomId
               then s0 \<lparr> games_s := (games_s s0)(roomId \<mapsto> newGame_s),
                         players_s := (players_s s0)(roomId \<mapsto> []) \<rparr>
               else s0)
      in case players_s s roomId of
           Some roomPlayers \<Rightarrow>
             (case getProp s roomPlayers socketId of
                Some myPlayer \<Rightarrow> (Joined (Active myPlayer), s)
              | None \<Rightarrow>
                  let assigned = assignSymbol (map snd roomPlayers)
                  in (Joined (Active assigned),
                      s \<lparr> players_s := (players_s s)(roomId \<mapsto> roomPlayers @ [(socketId, assigned)]) \<rparr>))
         | None \<Rightarrow>
             if roomId \<in> set builtinNames then
               (let props = builtinProps s roomId
                in case getProp s props socketId of
                     Some myPlayer \<Rightarrow> (Joined (Active myPlayer), s)
                   | None \<Rightarrow>
                       let assigned = assignSymbol (map snd props)
                       in (Joined (Active assigned),
                           s \<lparr> builtinProps := (builtinProps s)(roomId := props @ [(socketId, assigned)]) \<rparr>))
             else
               (case map_of (protoProps s) roomId of
                  Some str \<Rightarrow>
                    (case map_of (protoProps s) socketId of
                       Some myPlayer \<Rightarrow> (Joined (Active myPlayer), s)
                     | None \<Rightarrow> (JoinedNoRole, s))
                | None \<Rightarrow> (Threw, s)))"

text \<open>
  \<^verbatim>\<open>makeMove\<close>: three silent guards, the last of which (\<^verbatim>\<open>board[index] !== ""\<close>)
  also turns away an index outside the board. An inherited value passes \<^verbatim>\<open>!game\<close>
  and is turned away by the turn guard, its \<^verbatim>\<open>currentPlayer\<close> being \<^verbatim>\<open>undefined\<close>;
  so the handler returns silently whenever the room has no own game.
\<close>

definition makeMove_s :: "roomId \<Rightarrow> int \<Rightarrow> player \<Rightarrow> server_s \<Rightarrow> outcome \<times> server_s" where
  "makeMove_s roomId index p s =
     (case games_s s roomId of
        None \<Rightarrow> (Ignored, s)
      | Some g \<Rightarrow>
          if p \<noteq> currentPlayer_s g then (Ignored, s)
          else if length (moves_s g p) \<ge> 3 then (Ignored, s)
          else
            (case board_get (board_s g) index of
               Some Empty \<Rightarrow>
                 (Accepted,
                  s \<lparr> games_s := (games_s s)(roomId \<mapsto>
                        g \<lparr> board_s := (board_s g)[nat index := Mark p],
                            moves_s := (moves_s g)(p := moves_s g p @ [index]),
                            currentPlayer_s := other p \<rparr>) \<rparr>)
             | _ \<Rightarrow> (Ignored, s)))"

text \<open>
  \<^verbatim>\<open>removeSymbol\<close>. For an inherited value \<^verbatim>\<open>game.board\<close> is \<^verbatim>\<open>undefined\<close> and
  \<^verbatim>\<open>game.board[index]\<close> throws.
\<close>

definition removeSymbol_s :: "roomId \<Rightarrow> int \<Rightarrow> player \<Rightarrow> server_s \<Rightarrow> outcome \<times> server_s" where
  "removeSymbol_s roomId index p s =
     (case games_s s roomId of
        None \<Rightarrow> if inheritedGame s roomId then (Threw, s) else (Ignored, s)
      | Some g \<Rightarrow>
          if board_get (board_s g) index = Some (Mark p)
          then (Accepted,
                s \<lparr> games_s := (games_s s)(roomId \<mapsto>
                      g \<lparr> board_s := (board_s g)[nat index := Empty],
                          moves_s := (moves_s g)(p := filter (\<lambda>i. i \<noteq> index) (moves_s g p)),
                          removedStack := removedStack g @ [(p, index)] \<rparr>) \<rparr>)
          else (Ignored, s))"

text \<open>
  \<^verbatim>\<open>undo\<close>: the last removal is popped and its symbol written back, whatever the
  cell and the list hold by then. The index was read from the board when it was pushed.
  For an inherited value \<^verbatim>\<open>game.removedStack\<close> is \<^verbatim>\<open>undefined\<close> and reading its
  \<^verbatim>\<open>length\<close> throws.
\<close>

definition undo :: "roomId \<Rightarrow> server_s \<Rightarrow> outcome \<times> server_s" where
  "undo roomId s =
     (case games_s s roomId of
        None \<Rightarrow> if inheritedGame s roomId then (Threw, s) else (Ignored, s)
      | Some g \<Rightarrow>
          if length (removedStack g) = 0 then (Ignored, s)
          else
            (case last (removedStack g) of
               (p, index) \<Rightarrow>
                 (Accepted,
                  s \<lparr> games_s := (games_s s)(roomId \<mapsto>
                        g \<lparr> removedStack := butlast (removedStack g),
                            board_s := (board_s g)[nat index := Mark p],
                            moves_s := (moves_s g)(p := moves_s g p @ [index]) \<rparr>) \<rparr>)))"

text \<open>
  \<^verbatim>\<open>resetGame\<close>: \<^verbatim>\<open>games[roomId] = {...}\<close> makes the new game an own property of
  \<^verbatim>\<open>games\<close>, also where the name was inherited; for \<^verbatim>\<open>__proto__\<close> it makes the new
  game the prototype of \<^verbatim>\<open>games\<close>, kept under that name.
\<close>

definition resetGame :: "roomId \<Rightarrow> server_s \<Rightarrow> outcome \<times> server_s" where
  "resetGame roomId s = (Accepted, s \<lparr> games_s := (games_s s)(roomId \<mapsto> newGame_s) \<rparr>)"

datatype event_s =
    JoinGame_s socketId roomId
  | MakeMove_s roomId int player
  | RemoveSymbol_s roomId int player
  | Undo roomId
  | ResetGame roomId

fun handle_s :: "event_s \<Rightarrow> server_s \<Rightarrow> outcome \<times> server_s" where
  "handle_s (JoinGame_s socketId roomId) s = joinGame_s socketId roomId s"
| "handle_s (MakeMove_s roomId index p) s = makeMove_s roomId index p s"
| "handle_s (RemoveSymbol_s roomId index p) s = removeSymbol_s roomId index p s"
| "handle_s (Undo roomId) s = undo roomId s"
| "handle_s (ResetGame roomId) s = resetGame roomId s"

fun run_s :: "event_s list \<Rightarrow> server_s \<Rightarrow> server_s" where
  "run_s [] s = s"
| "run_s (e # es) s = run_s es (snd (handle_s e s))"


section \<open>Notions used by the properties\<close>

text \<open>
  Successive calls of \<^verbatim>\<open>checkRateLimit\<close> by one socket at the given times, with the
  answers in order.
\<close>

fun rateChecks :: "int list \<Rightarrow> socketId \<Rightarrow> server \<Rightarrow> bool list \<times> server" where
  "rateChecks [] socketId s = ([], s)"
| "rateChecks (t # ts) socketId s =
     (case checkRateLimit t socketId s of
        (a, s') \<Rightarrow> (case rateChecks ts socketId s' of (as, s'') \<Rightarrow> (a # as, s'')))"

text \<open>
  A call at time \<open>t\<close> opens a new window when the socket has no entry yet or \<open>t\<close> is
  past the reset time of its entry.
\<close>

definition windowOpens :: "int \<Rightarrow> socketId \<Rightarrow> server \<Rightarrow> bool" where
  "windowOpens t socketId s =
     (case rateLimits s socketId of None \<Rightarrow> True | Some l \<Rightarrow> t > resetTime l)"

text \<open>
  Runs of the hardened server used as concrete inputs. Sockets \<open>a\<close> and \<open>b\<close> join
  \<open>room1\<close> and become X and O. In \<open>beforeWin\<close> X holds cells 0 and 1 and is to move;
  \<open>wonGame\<close> adds cell 2. In \<open>cappedOffTurn\<close> X holds three cells and O is to move;
  in \<open>cappedOnTurn\<close> both hold three cells and X is to move. In \<open>onePlayerLeft\<close> O's socket
  has disconnected; \<open>afterRematch\<close> adds a rematch requested by X.
\<close>

definition twoPlayers :: "event list" where
  "twoPlayers = [JoinGame 0 ''a'' ''room1'' None ''p1'', JoinGame 1 ''b'' ''room1'' None ''p2'']"

definition beforeWin :: "event list" where
  "beforeWin = twoPlayers @
     [MakeMove 2000 ''a'' ''room1'' 0, MakeMove 4000 ''b'' ''room1'' 3,
      MakeMove 6000 ''a'' ''room1'' 1, MakeMove 8000 ''b'' ''room1'' 4]"

definition wonGame :: "event list" where
  "wonGame = beforeWin @ [MakeMove 10000 ''a'' ''room1'' 2]"

definition cappedOffTurn :: "event list" where
  "cappedOffTurn = twoPlayers @
     [MakeMove 2000 ''a'' ''room1'' 0, MakeMove 4000 ''b'' ''room1'' 1,
      MakeMove 6000 ''a'' ''room1'' 2, MakeMove 8000 ''b'' ''room1'' 4,
      MakeMove 10000 ''a'' ''room1'' 7]"

definition cappedOnTurn :: "event list" where
  "cappedOnTurn = cappedOffTurn @ [MakeMove 12000 ''b'' ''room1'' 8]"

definition onePlayerLeft :: "event list" where
  "onePlayerLeft = twoPlayers @ [Disconnect ''b'']"

definition afterRematch :: "event list" where
  "afterRematch = onePlayerLeft @ [Rematch 5000 ''a'' ''room1'']"

text \<open>Runs of the minimal server.\<close>

definition twoJoins_s :: "event_s list" where
  "twoJoins_s = [JoinGame_s ''a'' ''room1'', JoinGame_s ''b'' ''room1'']"

definition beforeRemoval_s :: "event_s list" where
  "beforeRemoval_s = twoJoins_s @ [MakeMove_s ''room1'' 0 PlayerX]"

definition beforeUndo :: "event_s list" where
  "beforeUndo = beforeRemoval_s @
     [RemoveSymbol_s ''room1'' 0 PlayerX, MakeMove_s ''room1'' 0 PlayerO]"

text \<open>
  The consistency of board and move lists as the specification words it: a cell is
  non-empty exactly when its index is in exactly one list, the lengths of the lists and
  the number of empty cells add up to 9, and no list is longer than the cap.
\<close>

definition exactlyOneList :: "(player \<Rightarrow> int list) \<Rightarrow> int \<Rightarrow> bool" where
  "exactlyOneList m i = ((i \<in> set (m PlayerX)) \<noteq> (i \<in> set (m PlayerO)))"

definition consistent :: "cell list \<Rightarrow> (player \<Rightarrow> int list) \<Rightarrow> bool" where
  "consistent b m =
     (list_all (\<lambda>i. (board_get b i \<noteq> Some Empty) = exactlyOneList m i) [0..8] \<and>
      length (m PlayerX) + length (m PlayerO) + count_list b Empty = 9 \<and>
      length (m PlayerX) \<le> MAX_SYMBOLS \<and> length (m PlayerO) \<le> MAX_SYMBOLS)"

text \<open>The number of members of a room that are not spectators.\<close>

definition activeCount :: "(socketId \<times> member) list \<Rightarrow> nat" where
  "activeCount roomPlayers = length (filter (\<lambda>p. role (snd p) \<noteq> Spectator) roomPlayers)"

definition capped_s :: "event_s list" where
  "capped_s = twoJoins_s @
     [MakeMove_s ''room1'' 0 PlayerX, MakeMove_s ''room1'' 1 PlayerO,
      MakeMove_s ''room1'' 2 PlayerX, MakeMove_s ''room1'' 4 PlayerO,
      MakeMove_s ''room1'' 7 PlayerX, MakeMove_s ''room1'' 8 PlayerO]"

text \<open>Every stored board of the hardened server has nine cells.\<close>

definition boardsOk :: "server \<Rightarrow> bool" where
  "boardsOk s = (\<forall>r g. games s r = Some g \<longrightarrow> length (board g) = 9)"

text \<open>
  The sockets that hold a given role in a room, and the well-formedness of a member
  object: no socket twice, at most one holder of X and at most one of O.
\<close>

definition holders :: "member_role \<Rightarrow> (socketId \<times> member) list \<Rightarrow> socketId list" where
  "holders ro roomPlayers = map fst (filter (\<lambda>p. role (snd p) = ro) roomPlayers)"

definition rolesOk :: "(socketId \<times> member) list \<Rightarrow> bool" where
  "rolesOk roomPlayers =
     (distinct (map fst roomPlayers) \<and>
      length (holders (Active PlayerX) roomPlayers) \<le> 1 \<and>
      length (holders (Active PlayerO) roomPlayers) \<le> 1)"

definition membersOk :: "server \<Rightarrow> bool" where
  "membersOk s = (\<forall>r ps. map_of (players s) r = Some ps \<longrightarrow> rolesOk ps)"





text \<open>
  A game that is being played has a pending move timer, due \<open>MOVE_TIMEOUT\<close> after the
  recorded start of the turn.
\<close>

definition timersOk :: "server \<Rightarrow> bool" where
  "timersOk s =
     (\<forall>r g. games s r = Some g \<longrightarrow> gameStatus g = Playing \<longrightarrow>
        (\<exists>t. turnStartTime g = Some t \<and> moveTimers s r = Some (t + MOVE_TIMEOUT)))"

text \<open>The property for all rooms but one, which a handler is about to put right.\<close>

definition timersOkBut :: "roomId \<Rightarrow> server \<Rightarrow> bool" where
  "timersOkBut r s =
     (\<forall>r' g. r' \<noteq> r \<longrightarrow> games s r' = Some g \<longrightarrow> gameStatus g = Playing \<longrightarrow>
        (\<exists>t. turnStartTime g = Some t \<and> moveTimers s r' = Some (t + MOVE_TIMEOUT)))"

text \<open>
  The first step of the minimal \<^verbatim>\<open>joinGame\<close> on its own: a room is missing when
  \<^verbatim>\<open>games[roomId]\<close> is falsy, and entering a missing room creates its game and its
  member object.
\<close>

definition roomMissing :: "server_s \<Rightarrow> roomId \<Rightarrow> bool" where
  "roomMissing s r = (games_s s r = None \<and> \<not> inheritedGame s r)"

definition enterRoom :: "roomId \<Rightarrow> server_s \<Rightarrow> server_s" where
  "enterRoom r s =
     (if roomMissing s r
      then s \<lparr> games_s := (games_s s)(r \<mapsto> newGame_s), players_s := (players_s s)(r \<mapsto> []) \<rparr>
      else s)"

text \<open>
  A run of the minimal server in which socket \<open>a\<close> first joins the room identifier
  \<^verbatim>\<open>__proto__\<close> and socket \<open>c\<close> then joins \<open>room1\<close>.
\<close>

definition protoJoin_s :: "event_s list" where
  "protoJoin_s = [JoinGame_s ''a'' ''__proto__'', JoinGame_s ''c'' ''room1'']"

section \<open>Properties\<close>

subsection \<open>Rate limiting\<close>

lemma checkRateLimit_opens:
  assumes "windowOpens t k s"
  shows "fst (checkRateLimit t k s) = True"
    and "rateLimits (snd (checkRateLimit t k s)) k = Some \<lparr> count = 1, resetTime = t + RATE_LIMIT_WINDOW \<rparr>"
  using assms
  by (auto simp: windowOpens_def checkRateLimit_def Let_def MAX_MOVES_PER_WINDOW_def RATE_LIMIT_WINDOW_def
      split: option.splits)

lemma checkRateLimit_within:
  assumes "rateLimits s k = Some l" "t \<le> resetTime l"
  shows "fst (checkRateLimit t k s) = (count l + 1 \<le> MAX_MOVES_PER_WINDOW)"
    and "rateLimits (snd (checkRateLimit t k s)) k = Some (l \<lparr> count := count l + 1 \<rparr>)"
  using assms by (auto simp: checkRateLimit_def Let_def)

lemma rateChecks_within:
  "rateLimits s k = Some l \<Longrightarrow> list_all (\<lambda>t. t \<le> resetTime l) ts \<Longrightarrow>
   fst (rateChecks ts k s) = map (\<lambda>i. count l + i + 1 \<le> MAX_MOVES_PER_WINDOW) [0..<length ts] \<and>
   rateLimits (snd (rateChecks ts k s)) k = Some (l \<lparr> count := count l + length ts \<rparr>)"
proof (induction ts arbitrary: s l)
  case Nil
  then show ?case by simp
next
  case (Cons t ts)
  obtain a s' where c: "checkRateLimit t k s = (a, s')" by (cases "checkRateLimit t k s")
  from Cons.prems have tl: "t \<le> resetTime l" and rest: "list_all (\<lambda>t. t \<le> resetTime l) ts" by simp_all
  from checkRateLimit_within[OF Cons.prems(1) tl] c
  have a: "a = (count l + 1 \<le> MAX_MOVES_PER_WINDOW)"
    and s': "rateLimits s' k = Some (l \<lparr> count := count l + 1 \<rparr>)" by simp_all
  from rest have rest': "list_all (\<lambda>t. t \<le> resetTime (l \<lparr> count := count l + 1 \<rparr>)) ts" by simp
  note ih = Cons.IH[OF s' rest']
  obtain as s'' where r: "rateChecks ts k s' = (as, s'')" by (cases "rateChecks ts k s'")
  have m: "map (\<lambda>i. count l + i + 1 \<le> MAX_MOVES_PER_WINDOW) [0..<Suc (length ts)]
        = (count l + 1 \<le> MAX_MOVES_PER_WINDOW) # map (\<lambda>i. count l + 1 + i + 1 \<le> MAX_MOVES_PER_WINDOW) [0..<length ts]"
    by (simp add: upt_rec[of 0] map_Suc_upt[symmetric] del: upt_Suc)
  show ?case using ih r c a m by simp
qed


lemma rateChecks_append:
  "rateChecks (xs @ ys) k s =
     (fst (rateChecks xs k s) @ fst (rateChecks ys k (snd (rateChecks xs k s))),
      snd (rateChecks ys k (snd (rateChecks xs k s))))"
  by (induction xs arbitrary: s) (auto split: prod.splits)

lemma makeMove_rate_limited:
  "\<not> fst (checkRateLimit now k s) \<Longrightarrow> makeMove now k r i s = (Rejected RateLimited, snd (checkRateLimit now k s))"
  by (cases "checkRateLimit now k s") (simp add: makeMove_def)

lemma removeSymbol_rate_limited:
  "\<not> fst (checkRateLimit now k s) \<Longrightarrow> removeSymbol now k r i s = (Rejected RateLimited, snd (checkRateLimit now k s))"
  by (cases "checkRateLimit now k s") (simp add: removeSymbol_def)

text \<open>
  Claim C8. One socket calls \<^verbatim>\<open>checkRateLimit\<close> at \<open>t0\<close>, which opens a window, then
  \<open>MAX_MOVES_PER_WINDOW\<close> more times no later than the window's reset time
  \<open>t0 + RATE_LIMIT_WINDOW\<close>, then once at \<open>t'\<close> after it. The first
  \<open>MAX_MOVES_PER_WINDOW\<close> calls are allowed, the next one (number
  \<open>MAX_MOVES_PER_WINDOW + 1\<close> of the window) is not, and the call at \<open>t'\<close> is allowed
  and leaves the counter at 1 in a new window. A call that is not allowed makes
  \<^verbatim>\<open>makeMove\<close> and \<^verbatim>\<open>removeSymbol\<close> answer with the rate-limit error and leave
  every game as it was.
\<close>

theorem rate_limit_window:
  assumes opens: "windowOpens t0 k s"
      and len: "length ts = MAX_MOVES_PER_WINDOW"
      and within: "list_all (\<lambda>t. t \<le> t0 + RATE_LIMIT_WINDOW) ts"
      and after: "t' > t0 + RATE_LIMIT_WINDOW"
  shows "fst (rateChecks (t0 # ts @ [t']) k s) = replicate MAX_MOVES_PER_WINDOW True @ [False, True] \<and>
         rateLimits (snd (rateChecks (t0 # ts @ [t']) k s)) k
           = Some \<lparr> count = 1, resetTime = t' + RATE_LIMIT_WINDOW \<rparr> \<and>
         (\<not> fst (checkRateLimit now k s1) \<longrightarrow>
            fst (makeMove now k r i s1) = Rejected RateLimited \<and>
            fst (removeSymbol now k r i s1) = Rejected RateLimited \<and>
            games (snd (makeMove now k r i s1)) = games s1 \<and>
            games (snd (removeSymbol now k r i s1)) = games s1)"
proof -
  define s0 where "s0 = snd (checkRateLimit t0 k s)"
  define l0 where "l0 = \<lparr> count = 1, resetTime = t0 + RATE_LIMIT_WINDOW \<rparr>"
  have first: "fst (checkRateLimit t0 k s) = True" and e0: "rateLimits s0 k = Some l0"
    using checkRateLimit_opens[OF opens] by (simp_all add: s0_def l0_def)
  have within': "list_all (\<lambda>t. t \<le> resetTime l0) ts"
    using within by (simp add: l0_def)
  define s5 where "s5 = snd (rateChecks ts k s0)"
  from rateChecks_within[OF e0 within']
  have res: "fst (rateChecks ts k s0) = map (\<lambda>i. count l0 + i + 1 \<le> MAX_MOVES_PER_WINDOW) [0..<length ts]"
    and e5: "rateLimits s5 k = Some (l0 \<lparr> count := count l0 + length ts \<rparr>)"
    by (simp_all add: s5_def)
  have res': "fst (rateChecks ts k s0) = [True, True, True, True, False]"
    unfolding res len by (simp add: MAX_MOVES_PER_WINDOW_def l0_def upt_rec[of _ 5] upt_rec[of _ 4]
        upt_rec[of _ 3] upt_rec[of _ 2] upt_rec[of _ 1] upt_rec[of 0 "Suc _"] numeral_eq_Suc)
  have o5: "windowOpens t' k s5"
    using e5 after by (simp add: windowOpens_def l0_def)
  note last = checkRateLimit_opens[OF o5]
  have split: "rateChecks (t0 # ts @ [t']) k s =
      (True # fst (rateChecks ts k s0) @ [fst (checkRateLimit t' k s5)], snd (checkRateLimit t' k s5))"
    using first by (cases "checkRateLimit t0 k s"; cases "checkRateLimit t' k s5")
      (simp add: rateChecks_append s0_def s5_def split: prod.splits)
  have a: "fst (rateChecks (t0 # ts @ [t']) k s) = replicate MAX_MOVES_PER_WINDOW True @ [False, True]"
    unfolding split using res' last(1) by (simp add: MAX_MOVES_PER_WINDOW_def numeral_eq_Suc)
  have b: "rateLimits (snd (rateChecks (t0 # ts @ [t']) k s)) k
           = Some \<lparr> count = 1, resetTime = t' + RATE_LIMIT_WINDOW \<rparr>"
    unfolding split using last(2) by simp
  have c: "\<not> fst (checkRateLimit now k s1) \<longrightarrow>
            fst (makeMove now k r i s1) = Rejected RateLimited \<and>
            fst (removeSymbol now k r i s1) = Rejected RateLimited \<and>
            games (snd (makeMove now k r i s1)) = games s1 \<and>
            games (snd (removeSymbol now k r i s1)) = games s1"
    by (simp add: makeMove_rate_limited removeSymbol_rate_limited) (simp add: checkRateLimit_def Let_def)
  from a b c show ?thesis by blast
qed

theorem rate_limit_window_witness:
  "windowOpens 0 ''a'' initServer \<and>
   length [100, 200, 300, 400, 1000 :: int] = MAX_MOVES_PER_WINDOW \<and>
   list_all (\<lambda>t. t \<le> 0 + RATE_LIMIT_WINDOW) [100, 200, 300, 400, 1000] \<and>
   1001 > 0 + RATE_LIMIT_WINDOW \<and>
   fst (rateChecks (0 # [100, 200, 300, 400, 1000] @ [1001]) ''a'' initServer)
     = [True, True, True, True, True, False, True] \<and>
   \<not> fst (checkRateLimit 1000 ''a'' (snd (rateChecks [0, 100, 200, 300, 400] ''a'' initServer))) \<and>
   fst (makeMove 1000 ''a'' ''r'' 0 (snd (rateChecks [0, 100, 200, 300, 400] ''a'' initServer)))
     = Rejected RateLimited"
proof -
  have h1: "windowOpens 0 ''a'' initServer" by (simp add: windowOpens_def initServer_def)
  have h2: "length [100, 200, 300, 400, 1000 :: int] = MAX_MOVES_PER_WINDOW"
    by (simp add: MAX_MOVES_PER_WINDOW_def)
  have h3: "list_all (\<lambda>t. t \<le> 0 + RATE_LIMIT_WINDOW) [100, 200, 300, 400, 1000]"
    by (simp add: RATE_LIMIT_WINDOW_def)
  have h4: "1001 > 0 + RATE_LIMIT_WINDOW" by (simp add: RATE_LIMIT_WINDOW_def)
  have h5: "\<not> fst (checkRateLimit 1000 ''a'' (snd (rateChecks [0, 100, 200, 300, 400] ''a'' initServer)))"
    by code_simp
  from rate_limit_window[OF h1 h2 h3 h4, of 1000 "snd (rateChecks [0, 100, 200, 300, 400] ''a'' initServer)" "''r''" 0]
    h1 h2 h3 h4 h5
  show ?thesis by (simp add: MAX_MOVES_PER_WINDOW_def numeral_eq_Suc)
qed

subsection \<open>Joining twice\<close>

lemma players_startMoveTimer [simp]: "players (startMoveTimer now r s) = players s"
  by (simp add: startMoveTimer_def split: option.splits)

lemma games_startMoveTimer_None [simp]: "(games (startMoveTimer now r s) r' = None) = (games s r' = None)"
  by (simp add: startMoveTimer_def split: option.splits)

lemma games_startMoveTimer_Some [simp]:
  "(\<exists>g. games (startMoveTimer now r s) r' = Some g) = (\<exists>g. games s r' = Some g)"
  by (auto simp: startMoveTimer_def split: option.splits if_splits)

lemma joinGame_member:
  assumes "joinGame now k r name gen s = (Joined ro, s1)"
  shows "isValidRoomId r \<and> games s1 r \<noteq> None \<and>
         (\<exists>ps m. map_of (players s1) r = Some ps \<and> map_of ps k = Some m \<and> role m = ro)"
  using assms
  by (auto simp: joinGame_def Let_def update_conv' startRoomExpiryTimer_def map_add_def
      split: if_splits option.splits)

lemma joinGame_again:
  assumes "isValidRoomId r" "games s r \<noteq> None" "map_of (players s) r = Some ps" "map_of ps k = Some m"
  shows "joinGame now k r name gen s = (Joined (role m), s)"
  using assms by (auto simp: joinGame_def)

lemma not_roomMissing_enterRoom: "\<not> roomMissing (enterRoom r t) r"
  by (simp add: enterRoom_def roomMissing_def)

lemma enterRoom_id: "\<not> roomMissing t r \<Longrightarrow> enterRoom r t = t"
  by (simp add: enterRoom_def)

lemma joinGame_s_enter: "joinGame_s k r t = joinGame_s k r (enterRoom r t)"
proof (cases "roomMissing t r")
  case True
  then show ?thesis
    by (simp add: joinGame_s_def enterRoom_def roomMissing_def Let_def)
next
  case False
  then show ?thesis by (simp add: enterRoom_id)
qed

lemma joinGame_s_own:
  assumes "\<not> roomMissing u r" and "players_s u r = Some ps"
  shows "joinGame_s k r u =
     (case getProp u ps k of
        Some p \<Rightarrow> (Joined (Active p), u)
      | None \<Rightarrow> (Joined (Active (assignSymbol (map snd ps))),
                 u \<lparr> players_s := (players_s u)(r \<mapsto> ps @ [(k, assignSymbol (map snd ps))]) \<rparr>))"
  using assms by (auto simp: joinGame_s_def roomMissing_def Let_def split: option.splits)

lemma joinGame_s_builtin:
  assumes "\<not> roomMissing u r" and "players_s u r = None" and "r \<in> set builtinNames"
  shows "joinGame_s k r u =
     (case getProp u (builtinProps u r) k of
        Some p \<Rightarrow> (Joined (Active p), u)
      | None \<Rightarrow> (Joined (Active (assignSymbol (map snd (builtinProps u r)))),
                 u \<lparr> builtinProps := (builtinProps u)
                        (r := builtinProps u r @ [(k, assignSymbol (map snd (builtinProps u r)))]) \<rparr>))"
  using assms by (auto simp: joinGame_s_def roomMissing_def Let_def split: option.splits)

lemma joinGame_s_string:
  assumes "\<not> roomMissing u r" and "players_s u r = None" and "r \<notin> set builtinNames"
  shows "joinGame_s k r u =
     (case map_of (protoProps u) r of
        Some str \<Rightarrow>
          (case map_of (protoProps u) k of
             Some p \<Rightarrow> (Joined (Active p), u)
           | None \<Rightarrow> (JoinedNoRole, u))
      | None \<Rightarrow> (Threw, u))"
  using assms by (auto simp: joinGame_s_def roomMissing_def Let_def split: option.splits)

lemma roomMissing_players_update [simp]:
  "roomMissing (u \<lparr> players_s := ps \<rparr>) r = roomMissing u r"
  by (simp add: roomMissing_def inheritedGame_def protoProps_def)

lemma roomMissing_builtin: "r \<in> set builtinNames \<Longrightarrow> \<not> roomMissing u r"
  by (simp add: roomMissing_def inheritedGame_def)

lemma getProp_own: "map_of ps k = Some p \<Longrightarrow> getProp u ps k = Some p"
  by (simp add: getProp_def)

lemma getProp_None: "getProp u ps k = None \<Longrightarrow> map_of ps k = None"
  by (simp add: getProp_def split: option.splits)

lemma protoProps_players_update [simp]: "protoProps (u \<lparr> players_s := x \<rparr>) = protoProps u"
  by (simp add: protoProps_def)

lemma getProp_players_update [simp]: "getProp (u \<lparr> players_s := x \<rparr>) ps k = getProp u ps k"
  by (simp add: getProp_def split: option.splits)

lemma joinGame_s_idem_entered:
  assumes nm: "\<not> roomMissing u r" and j: "joinGame_s k r u = (Joined ro, t1)"
  shows "joinGame_s k r t1 = (Joined ro, t1)"
proof (cases "players_s u r")
  case (Some ps)
  note own = joinGame_s_own[OF nm Some, of k]
  show ?thesis
  proof (cases "getProp u ps k")
    case None
    let ?a = "assignSymbol (map snd ps)"
    from own None j have t1: "t1 = u \<lparr> players_s := (players_s u)(r \<mapsto> ps @ [(k, ?a)]) \<rparr>"
      and ro: "ro = Active ?a" by simp_all
    have nm1: "\<not> roomMissing t1 r" unfolding t1 using nm by simp
    have p1: "players_s t1 r = Some (ps @ [(k, ?a)])" unfolding t1 by simp
    have "map_of (ps @ [(k, ?a)]) k = Some ?a"
      using getProp_None[OF None] by (simp add: map_add_def)
    then have "getProp t1 (ps @ [(k, ?a)]) k = Some ?a" by (rule getProp_own)
    then show ?thesis using joinGame_s_own[OF nm1 p1, of k] ro by simp
  next
    case (Some p)
    with own j have "t1 = u" "ro = Active p" by simp_all
    then show ?thesis using j by simp
  qed
next
  case None
  show ?thesis
  proof (cases "r \<in> set builtinNames")
    case True
    note bi = joinGame_s_builtin[OF nm None True, of k]
    let ?props = "builtinProps u r"
    show ?thesis
    proof (cases "getProp u ?props k")
      case None': None
      let ?a = "assignSymbol (map snd ?props)"
      from bi None' j have t1: "t1 = u \<lparr> builtinProps := (builtinProps u)(r := ?props @ [(k, ?a)]) \<rparr>"
        and ro: "ro = Active ?a" by simp_all
      have nm1: "\<not> roomMissing t1 r" by (rule roomMissing_builtin[OF True])
      have p1: "players_s t1 r = None" unfolding t1 using None by simp
      have b1: "builtinProps t1 r = ?props @ [(k, ?a)]" unfolding t1 by simp
      have "map_of (?props @ [(k, ?a)]) k = Some ?a"
        using getProp_None[OF None'] by (simp add: map_add_def)
      then have g: "getProp t1 (builtinProps t1 r) k = Some ?a" unfolding b1 by (rule getProp_own)
      show ?thesis using joinGame_s_builtin[OF nm1 p1 True, of k] g ro by simp
    next
      case (Some p)
      with bi j have "t1 = u" "ro = Active p" by simp_all
      then show ?thesis using j by simp
    qed
  next
    case False
    from joinGame_s_string[OF nm None False, of k] j have "t1 = u"
      by (auto split: option.splits)
    then show ?thesis using j by simp
  qed
qed

lemma joinGame_s_idem:
  assumes "joinGame_s k r t = (Joined ro, t1)"
  shows "joinGame_s k r t1 = (Joined ro, t1)"
  using joinGame_s_idem_entered[OF not_roomMissing_enterRoom, of k r t ro t1] assms
  by (simp add: joinGame_s_enter[symmetric])

text \<open>
  Claim C9. When \<^verbatim>\<open>joinGame\<close> has answered a socket with a role, a second
  \<^verbatim>\<open>joinGame\<close> of the same socket for the same room, whatever its time and display
  name, answers with the same role and leaves the whole server state, the member map
  included, as it was. This holds for the hardened server and for the minimal one.
\<close>

theorem joinGame_idempotent:
  "(joinGame now k r name gen s = (Joined ro, s1) \<longrightarrow>
      joinGame now' k r name' gen' s1 = (Joined ro, s1)) \<and>
   (joinGame_s k r t = (Joined ro', t1) \<longrightarrow> joinGame_s k r t1 = (Joined ro', t1))"
proof (intro conjI impI)
  assume "joinGame now k r name gen s = (Joined ro, s1)"
  from joinGame_member[OF this] obtain ps m where
    "isValidRoomId r" "games s1 r \<noteq> None" "map_of (players s1) r = Some ps"
    "map_of ps k = Some m" "role m = ro" by blast
  from joinGame_again[OF this(1-4)] this(5)
  show "joinGame now' k r name' gen' s1 = (Joined ro, s1)" by simp
next
  assume "joinGame_s k r t = (Joined ro', t1)"
  then show "joinGame_s k r t1 = (Joined ro', t1)" by (rule joinGame_s_idem)
qed

theorem joinGame_idempotent_witness:
  "joinGame 0 ''a'' ''room1'' None ''p1'' initServer
     = (Joined (Active PlayerX), snd (joinGame 0 ''a'' ''room1'' None ''p1'' initServer)) \<and>
   joinGame 7 ''a'' ''room1'' (Some ''zed'') ''p9'' (snd (joinGame 0 ''a'' ''room1'' None ''p1'' initServer))
     = (Joined (Active PlayerX), snd (joinGame 0 ''a'' ''room1'' None ''p1'' initServer)) \<and>
   joinGame_s ''a'' ''room1'' initServer_s
     = (Joined (Active PlayerX), snd (joinGame_s ''a'' ''room1'' initServer_s)) \<and>
   joinGame_s ''a'' ''room1'' (snd (joinGame_s ''a'' ''room1'' initServer_s))
     = (Joined (Active PlayerX), snd (joinGame_s ''a'' ''room1'' initServer_s))"
proof -
  have h: "joinGame 0 ''a'' ''room1'' None ''p1'' initServer
     = (Joined (Active PlayerX), snd (joinGame 0 ''a'' ''room1'' None ''p1'' initServer))"
    by (rule prod_eqI) (code_simp, simp)
  have h': "joinGame_s ''a'' ''room1'' initServer_s
     = (Joined (Active PlayerX), snd (joinGame_s ''a'' ''room1'' initServer_s))"
    by (rule prod_eqI) (code_simp, simp)
  from joinGame_idempotent[of 0 "''a''" "''room1''" None "''p1''" initServer "Active PlayerX"
      "snd (joinGame 0 ''a'' ''room1'' None ''p1'' initServer)" 7 "Some ''zed''" "''p9''"
      initServer_s "Active PlayerX" "snd (joinGame_s ''a'' ''room1'' initServer_s)"] h h'
  show ?thesis by simp
qed

subsection \<open>Turn alternation\<close>

lemma games_checkRateLimit [simp]: "games (snd (checkRateLimit now k s)) = games s"
  by (simp add: checkRateLimit_def Let_def)

lemma players_checkRateLimit [simp]: "players (snd (checkRateLimit now k s)) = players s"
  by (simp add: checkRateLimit_def Let_def)

lemma moveTimers_checkRateLimit [simp]: "moveTimers (snd (checkRateLimit now k s)) = moveTimers s"
  by (simp add: checkRateLimit_def Let_def)

lemma expiryTimers_checkRateLimit [simp]: "expiryTimers (snd (checkRateLimit now k s)) = expiryTimers s"
  by (simp add: checkRateLimit_def Let_def)

lemma games_startMoveTimer:
  "games (startMoveTimer now r s) =
     (case games s r of
        None \<Rightarrow> games s
      | Some g \<Rightarrow> if gameStatus g = Playing then (games s)(r \<mapsto> g \<lparr> turnStartTime := Some now \<rparr>)
                  else games s)"
  by (simp add: startMoveTimer_def split: option.splits)

text \<open>
  Both rate-limited handlers, with the state after the rate-limit check named and the
  game and the members read from the state before it, which the check leaves alone.
\<close>

lemma makeMove_unfold:
  "makeMove now k r i s0 =
     (let s = snd (checkRateLimit now k s0) in
      if \<not> fst (checkRateLimit now k s0) then (Rejected RateLimited, s)
      else
        (case (games s0 r, map_of (players s0) r) of
           (Some g, Some roomPlayers) \<Rightarrow>
             (case map_option role (map_of roomPlayers k) of
                Some (Active p) \<Rightarrow>
                  if gameStatus g \<noteq> Playing then (Rejected GameNotActive, s)
                  else if p \<noteq> currentPlayer g then (Rejected NotYourTurn, s)
                  else if length (moves g p) \<ge> MAX_SYMBOLS then (Rejected SymbolCapReached, s)
                  else if i < 0 \<or> i > 8 then (Rejected InvalidCellIndex, s)
                  else
                    (case board_get (board g) i of
                       Some Empty \<Rightarrow> (Accepted, placeSymbol now r p i g s)
                     | _ \<Rightarrow> (Rejected CellOccupied, s))
              | _ \<Rightarrow> (Rejected SpectatorForbidden, s))
         | _ \<Rightarrow> (Rejected RoomNotFound, s)))"
proof (cases "checkRateLimit now k s0")
  case (Pair a b)
  then have "games b = games s0" "players b = players s0"
    using games_checkRateLimit[of now k s0] players_checkRateLimit[of now k s0] by simp_all
  then show ?thesis using Pair by (simp add: makeMove_def Let_def)
qed

lemma removeSymbol_unfold:
  "removeSymbol now k r i s0 =
     (let s = snd (checkRateLimit now k s0) in
      if \<not> fst (checkRateLimit now k s0) then (Rejected RateLimited, s)
      else
        (case (games s0 r, map_of (players s0) r) of
           (Some g, Some roomPlayers) \<Rightarrow>
             (case map_option role (map_of roomPlayers k) of
                Some (Active p) \<Rightarrow>
                  if gameStatus g \<noteq> Playing then (Rejected GameNotActive, s)
                  else if p \<noteq> currentPlayer g then (Rejected NotYourTurn, s)
                  else if board_get (board g) i \<noteq> Some (Mark p)
                    then (Rejected CannotRemoveForeignSymbol, s)
                  else (Accepted, takeSymbol now r p i g s)
              | _ \<Rightarrow> (Rejected SpectatorForbidden, s))
         | _ \<Rightarrow> (Ignored, s)))"
proof (cases "checkRateLimit now k s0")
  case (Pair a b)
  then have "games b = games s0" "players b = players s0"
    using games_checkRateLimit[of now k s0] players_checkRateLimit[of now k s0] by simp_all
  then show ?thesis using Pair by (simp add: removeSymbol_def Let_def)
qed

lemma makeMove_rejected_games:
  "fst (makeMove now k r i s) \<noteq> Accepted \<Longrightarrow> games (snd (makeMove now k r i s)) = games s"
  by (auto simp: makeMove_unfold Let_def split: option.splits member_role.splits cell.splits if_splits)

lemma removeSymbol_rejected_games:
  "fst (removeSymbol now k r i s) \<noteq> Accepted \<Longrightarrow> games (snd (removeSymbol now k r i s)) = games s"
  by (auto simp: removeSymbol_unfold Let_def split: option.splits member_role.splits cell.splits if_splits)

lemma placeSymbol_game:
  "games s r = Some g \<Longrightarrow> gameStatus g = Playing \<Longrightarrow>
   \<exists>g'. games (placeSymbol now r p i g s) r = Some g' \<and>
     board g' = (board g)[nat i := Mark p] \<and>
     (if checkWinner (board g') = None
      then currentPlayer g' = other p \<and> gameStatus g' = Playing
      else currentPlayer g' = currentPlayer g \<and> gameStatus g' = Finished)"
  by (auto simp: placeSymbol_def Let_def games_startMoveTimer split: option.splits)

lemma takeSymbol_game:
  "\<exists>g'. games (takeSymbol now r p i g s) r = Some g' \<and> currentPlayer g' = other p"
  by (auto simp: takeSymbol_def Let_def games_startMoveTimer split: option.splits)

lemma makeMove_accepted_turn:
  assumes "games s r = Some g" "fst (makeMove now k r i s) = Accepted"
  shows "\<exists>g'. games (snd (makeMove now k r i s)) r = Some g' \<and>
     (if checkWinner (board g') = None
      then currentPlayer g' = other (currentPlayer g) \<and> gameStatus g' = Playing
      else currentPlayer g' = currentPlayer g \<and> gameStatus g' = Finished)"
proof -
  let ?s = "snd (checkRateLimit now k s)"
  from assms obtain p where
    acc: "snd (makeMove now k r i s) = placeSymbol now r p i g ?s" and
    p: "p = currentPlayer g" and st: "gameStatus g = Playing"
    by (auto simp: makeMove_unfold Let_def split: option.splits member_role.splits cell.splits if_splits)
  have "games ?s r = Some g" using assms(1) by simp
  from placeSymbol_game[OF this st, of now p i] show ?thesis
    unfolding acc p by blast
qed

lemma removeSymbol_accepted_turn:
  assumes "games s r = Some g" "fst (removeSymbol now k r i s) = Accepted"
  shows "\<exists>g'. games (snd (removeSymbol now k r i s)) r = Some g' \<and>
     currentPlayer g' = other (currentPlayer g)"
proof -
  let ?s = "snd (checkRateLimit now k s)"
  from assms obtain p where
    acc: "snd (removeSymbol now k r i s) = takeSymbol now r p i g ?s" and
    p: "p = currentPlayer g"
    by (auto simp: removeSymbol_unfold Let_def split: option.splits member_role.splits cell.splits if_splits)
  from takeSymbol_game[of now r p i g ?s] show ?thesis
    unfolding acc p by blast
qed

lemma makeMove_s_turn:
  "games_s t r = Some h \<Longrightarrow>
   (if fst (makeMove_s r i p t) = Accepted
    then \<exists>h'. games_s (snd (makeMove_s r i p t)) r = Some h' \<and>
           currentPlayer_s h' = other (currentPlayer_s h)
    else snd (makeMove_s r i p t) = t)"
  by (auto simp: makeMove_s_def split: option.splits cell.splits)

lemma removeSymbol_s_turn:
  "games_s t r = Some h \<Longrightarrow>
   (\<exists>h'. games_s (snd (removeSymbol_s r i p t)) r = Some h' \<and>
           currentPlayer_s h' = currentPlayer_s h) \<and>
   (fst (removeSymbol_s r i p t) \<noteq> Accepted \<longrightarrow> snd (removeSymbol_s r i p t) = t)"
  by (auto simp: removeSymbol_s_def split: option.splits cell.splits)


lemma makeMove_s_rejected: "fst (makeMove_s r i p t) \<noteq> Accepted \<Longrightarrow> snd (makeMove_s r i p t) = t"
  by (auto simp: makeMove_s_def split: option.splits cell.splits)

lemma removeSymbol_s_rejected: "fst (removeSymbol_s r i p t) \<noteq> Accepted \<Longrightarrow> snd (removeSymbol_s r i p t) = t"
  by (auto simp: removeSymbol_s_def split: option.splits cell.splits if_splits)

lemma makeMove_accepted_game: "fst (makeMove now k r i s) = Accepted \<Longrightarrow> \<exists>g. games s r = Some g"
  by (auto simp: makeMove_unfold Let_def split: option.splits member_role.splits cell.splits if_splits)

lemma removeSymbol_accepted_game: "fst (removeSymbol now k r i s) = Accepted \<Longrightarrow> \<exists>g. games s r = Some g"
  by (auto simp: removeSymbol_unfold Let_def split: option.splits member_role.splits cell.splits if_splits)

lemma makeMove_s_accepted_game: "fst (makeMove_s r i p t) = Accepted \<Longrightarrow> \<exists>h. games_s t r = Some h"
  by (auto simp: makeMove_s_def split: option.splits cell.splits)

lemma removeSymbol_s_accepted_game: "fst (removeSymbol_s r i p t) = Accepted \<Longrightarrow> \<exists>h. games_s t r = Some h"
  by (auto simp: removeSymbol_s_def split: option.splits cell.splits if_splits)

text \<open>
  Claim C2, as the code has it. In the hardened server an accepted placement that leaves
  the game open passes the turn to the other player exactly once, while an accepted
  placement that ends the game (a win or a draw) leaves \<^verbatim>\<open>currentPlayer\<close> as it was;
  an accepted removal passes the turn. In the minimal server an accepted placement passes
  the turn and an accepted removal leaves \<^verbatim>\<open>currentPlayer\<close> as it was. A placement or
  removal that is not accepted changes no game at all.
\<close>

theorem turn_alternation:
  "(if fst (makeMove now k r i s) = Accepted
    then \<exists>g g'. games s r = Some g \<and> games (snd (makeMove now k r i s)) r = Some g' \<and>
           (if checkWinner (board g') = None
            then currentPlayer g' = other (currentPlayer g) \<and> gameStatus g' = Playing
            else currentPlayer g' = currentPlayer g \<and> gameStatus g' = Finished)
    else games (snd (makeMove now k r i s)) = games s) \<and>
   (if fst (removeSymbol now k r i s) = Accepted
    then \<exists>g g'. games s r = Some g \<and> games (snd (removeSymbol now k r i s)) r = Some g' \<and>
           currentPlayer g' = other (currentPlayer g)
    else games (snd (removeSymbol now k r i s)) = games s) \<and>
   (if fst (makeMove_s r i p t) = Accepted
    then \<exists>h h'. games_s t r = Some h \<and> games_s (snd (makeMove_s r i p t)) r = Some h' \<and>
           currentPlayer_s h' = other (currentPlayer_s h)
    else snd (makeMove_s r i p t) = t) \<and>
   (if fst (removeSymbol_s r i p t) = Accepted
    then \<exists>h h'. games_s t r = Some h \<and> games_s (snd (removeSymbol_s r i p t)) r = Some h' \<and>
           currentPlayer_s h' = currentPlayer_s h
    else snd (removeSymbol_s r i p t) = t)"
proof (intro conjI)
  show "if fst (makeMove now k r i s) = Accepted
    then \<exists>g g'. games s r = Some g \<and> games (snd (makeMove now k r i s)) r = Some g' \<and>
           (if checkWinner (board g') = None
            then currentPlayer g' = other (currentPlayer g) \<and> gameStatus g' = Playing
            else currentPlayer g' = currentPlayer g \<and> gameStatus g' = Finished)
    else games (snd (makeMove now k r i s)) = games s"
  proof (cases "fst (makeMove now k r i s) = Accepted")
    case True
    from makeMove_accepted_game[OF True] obtain g where g: "games s r = Some g" ..
    from makeMove_accepted_turn[OF g True] g True show ?thesis by simp
  next
    case False
    then show ?thesis by (simp add: makeMove_rejected_games)
  qed
  show "if fst (removeSymbol now k r i s) = Accepted
    then \<exists>g g'. games s r = Some g \<and> games (snd (removeSymbol now k r i s)) r = Some g' \<and>
           currentPlayer g' = other (currentPlayer g)
    else games (snd (removeSymbol now k r i s)) = games s"
  proof (cases "fst (removeSymbol now k r i s) = Accepted")
    case True
    from removeSymbol_accepted_game[OF True] obtain g where g: "games s r = Some g" ..
    from removeSymbol_accepted_turn[OF g True] g True show ?thesis by simp
  next
    case False
    then show ?thesis by (simp add: removeSymbol_rejected_games)
  qed
  show "if fst (makeMove_s r i p t) = Accepted
    then \<exists>h h'. games_s t r = Some h \<and> games_s (snd (makeMove_s r i p t)) r = Some h' \<and>
           currentPlayer_s h' = other (currentPlayer_s h)
    else snd (makeMove_s r i p t) = t"
  proof (cases "fst (makeMove_s r i p t) = Accepted")
    case True
    from makeMove_s_accepted_game[OF True] obtain h where h: "games_s t r = Some h" ..
    from makeMove_s_turn[OF h, of i p] h True show ?thesis by simp
  next
    case False
    then show ?thesis by (simp add: makeMove_s_rejected)
  qed
  show "if fst (removeSymbol_s r i p t) = Accepted
    then \<exists>h h'. games_s t r = Some h \<and> games_s (snd (removeSymbol_s r i p t)) r = Some h' \<and>
           currentPlayer_s h' = currentPlayer_s h
    else snd (removeSymbol_s r i p t) = t"
  proof (cases "fst (removeSymbol_s r i p t) = Accepted")
    case True
    from removeSymbol_s_accepted_game[OF True] obtain h where h: "games_s t r = Some h" ..
    from removeSymbol_s_turn[OF h, of i p] h True show ?thesis by simp
  next
    case False
    then show ?thesis by (simp add: removeSymbol_s_rejected)
  qed
qed

lemma the_Some: "\<not> Option.is_none x \<Longrightarrow> x = Some (the x)"
  by (cases x) simp_all

theorem turn_alternation_witness:
  "fst (makeMove 10000 ''a'' ''room1'' 5 (run beforeWin initServer)) = Accepted \<and>
   currentPlayer (the (games (run beforeWin initServer) ''room1'')) = PlayerX \<and>
   currentPlayer (the (games (snd (makeMove 10000 ''a'' ''room1'' 5 (run beforeWin initServer))) ''room1'')) = PlayerO \<and>
   fst (removeSymbol 10000 ''a'' ''room1'' 5 (run beforeWin initServer)) = Rejected CannotRemoveForeignSymbol \<and>
   games (snd (removeSymbol 10000 ''a'' ''room1'' 5 (run beforeWin initServer))) = games (run beforeWin initServer)"
proof -
  have a: "fst (makeMove 10000 ''a'' ''room1'' 5 (run beforeWin initServer)) = Accepted" by code_simp
  have b: "currentPlayer (the (games (run beforeWin initServer) ''room1'')) = PlayerX" by code_simp
  have c: "checkWinner (board (the (games (snd (makeMove 10000 ''a'' ''room1'' 5 (run beforeWin initServer))) ''room1''))) = None"
    by code_simp
  have d: "fst (removeSymbol 10000 ''a'' ''room1'' 5 (run beforeWin initServer)) = Rejected CannotRemoveForeignSymbol"
    by code_simp
  from turn_alternation[of 10000 "''a''" "''room1''" 5 "run beforeWin initServer" PlayerX initServer_s]
  have "\<exists>g g'. games (run beforeWin initServer) ''room1'' = Some g \<and>
          games (snd (makeMove 10000 ''a'' ''room1'' 5 (run beforeWin initServer))) ''room1'' = Some g' \<and>
          (if checkWinner (board g') = None
           then currentPlayer g' = other (currentPlayer g) \<and> gameStatus g' = Playing
           else currentPlayer g' = currentPlayer g \<and> gameStatus g' = Finished)"
    and e: "games (snd (removeSymbol 10000 ''a'' ''room1'' 5 (run beforeWin initServer)))
          = games (run beforeWin initServer)"
    using a d by simp_all
  then obtain g g' where "games (run beforeWin initServer) ''room1'' = Some g"
    "games (snd (makeMove 10000 ''a'' ''room1'' 5 (run beforeWin initServer))) ''room1'' = Some g'"
    "if checkWinner (board g') = None
     then currentPlayer g' = other (currentPlayer g) \<and> gameStatus g' = Playing
     else currentPlayer g' = currentPlayer g \<and> gameStatus g' = Finished" by blast
  with b c have "currentPlayer (the (games (snd (makeMove 10000 ''a'' ''room1'' 5 (run beforeWin initServer))) ''room1'')) = PlayerO"
    by simp
  with a b d e show ?thesis by simp
qed

text \<open>
  Claim C2 as stated fails twice. In the hardened server X, holding cells 0 and 1,
  places on cell 2 and wins: the placement is accepted and it is still X's turn. In the
  minimal server X removes its symbol while it is O's turn: the removal is accepted and it
  is still O's turn.
\<close>

theorem winning_move_keeps_turn:
  "currentPlayer (the (games (run beforeWin initServer) ''room1'')) = PlayerX \<and>
   fst (handle (MakeMove 10000 ''a'' ''room1'' 2) (run beforeWin initServer)) = Accepted \<and>
   currentPlayer (the (games (snd (handle (MakeMove 10000 ''a'' ''room1'' 2) (run beforeWin initServer))) ''room1''))
     = PlayerX \<and>
   currentPlayer_s (the (games_s (run_s beforeRemoval_s initServer_s) ''room1'')) = PlayerO \<and>
   fst (handle_s (RemoveSymbol_s ''room1'' 0 PlayerX) (run_s beforeRemoval_s initServer_s)) = Accepted \<and>
   currentPlayer_s (the (games_s (snd (handle_s (RemoveSymbol_s ''room1'' 0 PlayerX) (run_s beforeRemoval_s initServer_s))) ''room1''))
     = PlayerO"
  by code_simp

subsection \<open>The symbol cap\<close>

text \<open>
  Claim C5, as the code has it. A member with role X or O whose move list has reached the
  cap has every placement turned away, whatever the index and whatever the cell holds,
  and the games and the members stay as they were. The error is the cap error when the
  request gets as far as the cap check, that is when the rate limit allows it, the game
  is being played and it is that player's turn; before that it is the error of the first
  check that fails. The minimal server drops the placement without any notification and
  without any change.
\<close>

theorem symbol_cap:
  assumes "games s r = Some g" and "map_of (players s) r = Some ps"
      and "map_of ps k = Some m" and "role m = Active p"
      and "length (moves g p) \<ge> MAX_SYMBOLS"
      and "games_s t r' = Some h" and "length (moves_s h q) \<ge> 3"
  shows "fst (makeMove now k r i s) =
           (if \<not> fst (checkRateLimit now k s) then Rejected RateLimited
            else if gameStatus g \<noteq> Playing then Rejected GameNotActive
            else if p \<noteq> currentPlayer g then Rejected NotYourTurn
            else Rejected SymbolCapReached) \<and>
         games (snd (makeMove now k r i s)) = games s \<and>
         players (snd (makeMove now k r i s)) = players s \<and>
         makeMove_s r' j q t = (Ignored, t)"
  using assms
  by (auto simp: makeMove_unfold Let_def makeMove_s_def)

theorem symbol_cap_witness:
  "length (moves (the (games (run cappedOnTurn initServer) ''room1'')) PlayerX) \<ge> MAX_SYMBOLS \<and>
   fst (makeMove 14000 ''a'' ''room1'' 50 (run cappedOnTurn initServer)) = Rejected SymbolCapReached \<and>
   fst (makeMove 14000 ''a'' ''room1'' 1 (run cappedOnTurn initServer)) = Rejected SymbolCapReached \<and>
   games (snd (makeMove 14000 ''a'' ''room1'' 50 (run cappedOnTurn initServer)))
     = games (run cappedOnTurn initServer) \<and>
   length (moves_s (the (games_s (run_s capped_s initServer_s) ''room1'')) PlayerX) \<ge> 3 \<and>
   makeMove_s ''room1'' 5 PlayerX (run_s capped_s initServer_s) = (Ignored, run_s capped_s initServer_s)"
proof -
  let ?s = "run cappedOnTurn initServer" and ?t = "run_s capped_s initServer_s"
  have h1: "games ?s ''room1'' = Some (the (games ?s ''room1''))"
    by (rule the_Some) code_simp
  have h2: "map_of (players ?s) ''room1'' = Some (the (map_of (players ?s) ''room1''))"
    by (rule the_Some) code_simp
  have h3: "map_of (the (map_of (players ?s) ''room1'')) ''a''
      = Some \<lparr> role = Active PlayerX, playerId = ''p1'', joinedAt = 0 \<rparr>"
    by code_simp
  have h4: "role \<lparr> role = Active PlayerX, playerId = ''p1'', joinedAt = 0 \<rparr> = Active PlayerX" by simp
  have h5: "length (moves (the (games ?s ''room1'')) PlayerX) \<ge> MAX_SYMBOLS" by code_simp
  have h6: "games_s ?t ''room1'' = Some (the (games_s ?t ''room1''))"
    by (rule the_Some) code_simp
  have h7: "length (moves_s (the (games_s ?t ''room1'')) PlayerX) \<ge> 3" by code_simp
  have e1: "fst (checkRateLimit 14000 ''a'' ?s)" by code_simp
  have e2: "gameStatus (the (games ?s ''room1'')) = Playing" by code_simp
  have e3: "currentPlayer (the (games ?s ''room1'')) = PlayerX" by code_simp
  from symbol_cap[OF h1 h2 h3 h4 h5 h6 h7, of 14000 50 5]
       symbol_cap[OF h1 h2 h3 h4 h5 h6 h7, of 14000 1 5] h5 h7 e1 e2 e3
  show ?thesis by simp
qed

text \<open>
  Claim C5 as stated fails: X holds three cells, it is O's turn, and a placement by X is
  answered with the turn error, not the cap error.
\<close>

theorem capped_off_turn:
  "length (moves (the (games (run cappedOffTurn initServer) ''room1'')) PlayerX) = MAX_SYMBOLS \<and>
   fst (handle (MakeMove 12000 ''a'' ''room1'' 5) (run cappedOffTurn initServer)) = Rejected NotYourTurn"
  by code_simp

subsection \<open>Rematch\<close>

text \<open>
  What \<^verbatim>\<open>rematch\<close> does for a member with role X or O: it is accepted and puts a new
  game in place of the old one. The scores are those of the old game, the board is empty,
  both move lists and the history are empty, there is no winner and no winning line, X is
  to move, and the status is set to \<^verbatim>\<open>"playing"\<close> without a look at the members.
\<close>

lemma rematch_fresh_game:
  assumes "games s r = Some g" and "map_of (players s) r = Some ps"
      and "map_of ps k = Some m" and "role m = Active p"
  shows "fst (rematch now k r s) = Accepted \<and>
         (\<exists>g'. games (snd (rematch now k r s)) r = Some g' \<and>
            scores g' = scores g \<and> board g' = emptyBoard \<and>
            moves g' PlayerX = [] \<and> moves g' PlayerO = [] \<and> moveHistory g' = [] \<and>
            winner g' = None \<and> winningLine g' = None \<and> currentPlayer g' = PlayerX \<and>
            gameStatus g' = Playing) \<and>
         players (snd (rematch now k r s)) = players s"
  using assms
  by (auto simp: rematch_def Let_def createGame_def games_startMoveTimer)

text \<open>
  Claim C7 at a failing input. X and O have joined and O's socket has disconnected, which
  paused the game: X is the only member with a player role and the status is
  \<^verbatim>\<open>"waiting"\<close>. X's rematch is accepted and the new game has status \<^verbatim>\<open>"playing"\<close>,
  with still one member holding a player role, where the claim has \<^verbatim>\<open>"playing"\<close> only
  for exactly two. The move timer started by the rematch is due 30 seconds later; when it
  fires, the game is forfeited to O, who is absent, and O's score goes up.
\<close>

theorem rematch_with_one_player:
  "activeCount (the (map_of (players (run onePlayerLeft initServer)) ''room1'')) = 1 \<and>
   gameStatus (the (games (run onePlayerLeft initServer) ''room1'')) = Waiting \<and>
   fst (handle (Rematch 5000 ''a'' ''room1'') (run onePlayerLeft initServer)) = Accepted \<and>
   gameStatus (the (games (snd (handle (Rematch 5000 ''a'' ''room1'') (run onePlayerLeft initServer))) ''room1''))
     = Playing \<and>
   activeCount (the (map_of (players (snd (handle (Rematch 5000 ''a'' ''room1'') (run onePlayerLeft initServer)))) ''room1''))
     = 1 \<and>
   fst (handle (MoveTimeout 35000 ''room1'') (run afterRematch initServer)) = Accepted \<and>
   gameStatus (the (games (snd (handle (MoveTimeout 35000 ''room1'') (run afterRematch initServer))) ''room1''))
     = Finished \<and>
   winner (the (games (snd (handle (MoveTimeout 35000 ''room1'') (run afterRematch initServer))) ''room1''))
     = Some (Won PlayerO) \<and>
   score_O (scores (the (games (snd (handle (MoveTimeout 35000 ''room1'') (run afterRematch initServer))) ''room1'')))
     = 1"
  by code_simp

subsection \<open>Undo in the minimal server\<close>

text \<open>
  Claim C1 at a failing input. X places on cell 0 and removes the symbol, O places on
  cell 0, and the removal is undone. Before the undo board and move lists are consistent.
  The undo is accepted and writes X over O's symbol: cell 0 holds X while index 0 is in
  the list of X and in the list of O, so the cell's index is not in exactly one list and
  the count of list entries and empty cells is 10.
\<close>

theorem undo_breaks_consistency:
  "fst (handle_s (Undo ''room1'') (run_s beforeUndo initServer_s)) = Accepted \<and>
   consistent (board_s (the (games_s (run_s beforeUndo initServer_s) ''room1'')))
              (moves_s (the (games_s (run_s beforeUndo initServer_s) ''room1''))) \<and>
   board_get (board_s (the (games_s (snd (handle_s (Undo ''room1'') (run_s beforeUndo initServer_s))) ''room1''))) 0
     = Some (Mark PlayerX) \<and>
   moves_s (the (games_s (snd (handle_s (Undo ''room1'') (run_s beforeUndo initServer_s))) ''room1'')) PlayerX = [0] \<and>
   moves_s (the (games_s (snd (handle_s (Undo ''room1'') (run_s beforeUndo initServer_s))) ''room1'')) PlayerO = [0] \<and>
   \<not> consistent
       (board_s (the (games_s (snd (handle_s (Undo ''room1'') (run_s beforeUndo initServer_s))) ''room1'')))
       (moves_s (the (games_s (snd (handle_s (Undo ''room1'') (run_s beforeUndo initServer_s))) ''room1'')))"
  by code_simp

subsection \<open>Disconnecting after the game is over\<close>

text \<open>
  Claim C3 at a failing input. X has won, so the status is \<^verbatim>\<open>"finished"\<close> and the
  winner is X. Then O's socket disconnects: the status becomes \<^verbatim>\<open>"waiting"\<close> and the
  winner is still X.
\<close>

theorem disconnect_after_win:
  "gameStatus (the (games (run wonGame initServer) ''room1'')) = Finished \<and>
   winner (the (games (run wonGame initServer) ''room1'')) = Some (Won PlayerX) \<and>
   fst (handle (Disconnect ''b'') (run wonGame initServer)) = Accepted \<and>
   gameStatus (the (games (snd (handle (Disconnect ''b'') (run wonGame initServer))) ''room1'')) = Waiting \<and>
   winner (the (games (snd (handle (Disconnect ''b'') (run wonGame initServer))) ''room1'')) = Some (Won PlayerX)"
  by code_simp

subsection \<open>Removal outside the board\<close>

lemma fold_preserves:
  assumes "\<And>x s. P s \<Longrightarrow> P (f x s)" and "P s"
  shows "P (fold f xs s)"
  using assms(2) by (induction xs arbitrary: s) (simp_all add: assms(1))

lemma reachable_run: "reachable s \<Longrightarrow> reachable (run es s)"
  by (induction es arbitrary: s) (simp_all add: reachable_step)

lemma reachable_run_init: "reachable (run es initServer)"
  by (rule reachable_run) (rule reachable_init)

lemma boardsOk_init: "boardsOk initServer"
  by (simp add: boardsOk_def initServer_def)

lemma boardsOk_startMoveTimer: "boardsOk s \<Longrightarrow> boardsOk (startMoveTimer now r s)"
  by (auto simp: boardsOk_def games_startMoveTimer split: option.splits if_splits)

lemma boardsOk_cleanupRoom: "boardsOk s \<Longrightarrow> boardsOk (cleanupRoom r s)"
  by (auto simp: boardsOk_def cleanupRoom_def clearRoomTimers_def)

lemma boardsOk_joinGame: "boardsOk s \<Longrightarrow> boardsOk (snd (joinGame now k r name gen s))"
  by (auto simp: boardsOk_def joinGame_def Let_def startRoomExpiryTimer_def createGame_def
      emptyBoard_def games_startMoveTimer split: option.splits if_splits)

lemma boardsOk_placeSymbol:
  "boardsOk s \<Longrightarrow> games s r = Some g \<Longrightarrow> boardsOk (placeSymbol now r p i g s)"
  by (auto simp: boardsOk_def placeSymbol_def Let_def games_startMoveTimer split: option.splits if_splits)

lemma boardsOk_takeSymbol:
  "boardsOk s \<Longrightarrow> games s r = Some g \<Longrightarrow> boardsOk (takeSymbol now r p i g s)"
  by (auto simp: boardsOk_def takeSymbol_def Let_def games_startMoveTimer split: option.splits if_splits)

lemma boardsOk_checkRateLimit: "boardsOk (snd (checkRateLimit now k s)) = boardsOk s"
  by (simp add: boardsOk_def)

lemma boardsOk_makeMove: "boardsOk s \<Longrightarrow> boardsOk (snd (makeMove now k r i s))"
  by (auto simp: makeMove_unfold Let_def boardsOk_checkRateLimit boardsOk_placeSymbol
      split: option.splits member_role.splits cell.splits)

lemma boardsOk_removeSymbol: "boardsOk s \<Longrightarrow> boardsOk (snd (removeSymbol now k r i s))"
  by (auto simp: removeSymbol_unfold Let_def boardsOk_checkRateLimit boardsOk_takeSymbol
      split: option.splits member_role.splits cell.splits)

lemma boardsOk_rematch: "boardsOk s \<Longrightarrow> boardsOk (snd (rematch now k r s))"
  by (auto simp: boardsOk_def rematch_def Let_def createGame_def emptyBoard_def games_startMoveTimer
      split: option.splits member_role.splits if_splits)

lemma boardsOk_disconnectRoom: "boardsOk s \<Longrightarrow> boardsOk (disconnectRoom k r s)"
  by (auto simp: boardsOk_def disconnectRoom_def Let_def cleanupRoom_def clearRoomTimers_def
      split: option.splits if_splits)

lemma boardsOk_disconnect: "boardsOk s \<Longrightarrow> boardsOk (snd (disconnect k s))"
proof -
  assume "boardsOk s"
  then have "boardsOk (fold (disconnectRoom k) (map fst (players s)) s)"
    by (rule fold_preserves[where P = boardsOk, rotated]) (rule boardsOk_disconnectRoom)
  then show ?thesis by (simp add: disconnect_def Let_def boardsOk_def)
qed

lemma boardsOk_moveTimerFired: "boardsOk s \<Longrightarrow> boardsOk (snd (moveTimerFired now r s))"
  by (auto simp: boardsOk_def moveTimerFired_def moveTimerCallback_def Let_def
      split: option.splits if_splits)

lemma boardsOk_expiryTimerFired: "boardsOk s \<Longrightarrow> boardsOk (snd (expiryTimerFired now r s))"
  by (auto simp: expiryTimerFired_def boardsOk_cleanupRoom split: option.splits)

lemma boardsOk_handle: "boardsOk s \<Longrightarrow> boardsOk (snd (handle e s))"
  by (cases e)
    (simp_all add: boardsOk_joinGame boardsOk_makeMove boardsOk_removeSymbol boardsOk_rematch
      boardsOk_disconnect boardsOk_moveTimerFired boardsOk_expiryTimerFired)

lemma reachable_boardsOk: "reachable s \<Longrightarrow> boardsOk s"
  by (induction rule: reachable.induct) (simp_all add: boardsOk_init boardsOk_handle)

lemma board_get_outside: "length b = 9 \<Longrightarrow> i < 0 \<or> i > 8 \<Longrightarrow> board_get b i = None"
  by (auto simp: board_get_def)

text \<open>
  Claim C10. In every reachable state of the hardened server, a \<^verbatim>\<open>removeSymbol\<close>
  request with an index below 0 or above 8 is never accepted and never throws; apart
  from the rate-limit entry of the socket the state is as before, so no game is changed.
  When the request passes every earlier check it is turned away by the comparison of
  \<^verbatim>\<open>board[index]\<close> with the player's symbol, the cell read being \<^verbatim>\<open>undefined\<close>.
\<close>

theorem removeSymbol_out_of_range:
  assumes "reachable s" and "i < 0 \<or> i > 8"
  shows "fst (removeSymbol now k r i s) \<noteq> Accepted \<and>
         fst (removeSymbol now k r i s) \<noteq> Threw \<and>
         snd (removeSymbol now k r i s) = snd (checkRateLimit now k s) \<and>
         games (snd (removeSymbol now k r i s)) = games s \<and>
         (fst (checkRateLimit now k s) \<and> games s r = Some g \<and> map_of (players s) r = Some ps \<and>
          map_of ps k = Some m \<and> role m = Active (currentPlayer g) \<and> gameStatus g = Playing
          \<longrightarrow> fst (removeSymbol now k r i s) = Rejected CannotRemoveForeignSymbol)"
proof -
  have len: "\<And>g. games s r = Some g \<Longrightarrow> board_get (board g) i = None"
    using reachable_boardsOk[OF assms(1)] assms(2) by (auto simp: boardsOk_def intro: board_get_outside)
  show ?thesis
    by (auto simp: removeSymbol_unfold Let_def len split: option.splits member_role.splits)
qed

theorem removeSymbol_out_of_range_witness:
  "reachable (run beforeWin initServer) \<and>
   board_get (board (the (games (run beforeWin initServer) ''room1''))) 0 = Some (Mark PlayerX) \<and>
   fst (removeSymbol 10000 ''a'' ''room1'' 0 (run beforeWin initServer)) = Accepted \<and>
   fst (removeSymbol 10000 ''a'' ''room1'' 9 (run beforeWin initServer)) = Rejected CannotRemoveForeignSymbol \<and>
   fst (removeSymbol 10000 ''a'' ''room1'' (- 1) (run beforeWin initServer)) = Rejected CannotRemoveForeignSymbol \<and>
   games (snd (removeSymbol 10000 ''a'' ''room1'' 9 (run beforeWin initServer))) = games (run beforeWin initServer) \<and>
   games (snd (removeSymbol 10000 ''a'' ''room1'' (- 1) (run beforeWin initServer))) = games (run beforeWin initServer)"
proof -
  let ?s = "run beforeWin initServer"
  have h1: "reachable ?s" by (rule reachable_run_init)
  have h2: "(9::int) < 0 \<or> (9::int) > 8" by simp
  have h3: "(- 1::int) < 0 \<or> (- 1::int) > 8" by simp
  have g: "games ?s ''room1'' = Some (the (games ?s ''room1''))" by (rule the_Some) code_simp
  have p: "map_of (players ?s) ''room1'' = Some (the (map_of (players ?s) ''room1''))"
    by (rule the_Some) code_simp
  have m: "map_of (the (map_of (players ?s) ''room1'')) ''a''
      = Some \<lparr> role = Active PlayerX, playerId = ''p1'', joinedAt = 0 \<rparr>" by code_simp
  have c: "currentPlayer (the (games ?s ''room1'')) = PlayerX" by code_simp
  have st: "gameStatus (the (games ?s ''room1'')) = Playing" by code_simp
  have a: "fst (checkRateLimit 10000 ''a'' ?s)" by code_simp
  have b0: "board_get (board (the (games ?s ''room1''))) 0 = Some (Mark PlayerX)" by code_simp
  have acc: "fst (removeSymbol 10000 ''a'' ''room1'' 0 ?s) = Accepted" by code_simp
  from removeSymbol_out_of_range[OF h1 h2, of 10000 "''a''" "''room1''" "the (games ?s ''room1'')"
         "the (map_of (players ?s) ''room1'')" "\<lparr> role = Active PlayerX, playerId = ''p1'', joinedAt = 0 \<rparr>"]
       removeSymbol_out_of_range[OF h1 h3, of 10000 "''a''" "''room1''" "the (games ?s ''room1'')"
         "the (map_of (players ?s) ''room1'')" "\<lparr> role = Active PlayerX, playerId = ''p1'', joinedAt = 0 \<rparr>"]
       h1 g p m c st a b0 acc
  show ?thesis by simp
qed

subsection \<open>Role assignment\<close>






lemma membersOk_players_eq: "players s' = players s \<Longrightarrow> membersOk s' = membersOk s"
  by (simp add: membersOk_def)

lemma players_placeSymbol [simp]: "players (placeSymbol now r p i g s) = players s"
  by (simp add: placeSymbol_def Let_def split: option.splits)

lemma players_takeSymbol [simp]: "players (takeSymbol now r p i g s) = players s"
  by (simp add: takeSymbol_def)

lemma players_makeMove [simp]: "players (snd (makeMove now k r i s)) = players s"
  by (auto simp: makeMove_unfold Let_def split: option.splits member_role.splits cell.splits)

lemma players_removeSymbol [simp]: "players (snd (removeSymbol now k r i s)) = players s"
  by (auto simp: removeSymbol_unfold Let_def split: option.splits member_role.splits cell.splits)

lemma players_rematch [simp]: "players (snd (rematch now k r s)) = players s"
  by (auto simp: rematch_def Let_def split: option.splits member_role.splits)

lemma players_moveTimerFired [simp]: "players (snd (moveTimerFired now r s)) = players s"
  by (auto simp: moveTimerFired_def moveTimerCallback_def Let_def split: option.splits)



















































text \<open>
  The states set aside above. A socket that joins the room identifier \<^verbatim>\<open>__proto__\<close>
  has its symbol written onto \<^verbatim>\<open>Object.prototype\<close> and reads it in every room from
  then on: socket \<open>a\<close> is answered X in \<open>room1\<close>, where socket \<open>c\<close> holds X, and is
  not entered in the member object of the room.
\<close>

lemma inherited_symbol_shared:
  "fst (handle_s (JoinGame_s ''a'' ''__proto__'') initServer_s) = Joined (Active PlayerX) \<and>
   protoProps (run_s protoJoin_s initServer_s) = [(''a'', PlayerX)] \<and>
   players_s (run_s protoJoin_s initServer_s) ''room1'' = Some [(''c'', PlayerX)] \<and>
   fst (handle_s (JoinGame_s ''a'' ''room1'') (run_s protoJoin_s initServer_s)) = Joined (Active PlayerX) \<and>
   players_s (snd (handle_s (JoinGame_s ''a'' ''room1'') (run_s protoJoin_s initServer_s))) ''room1''
     = Some [(''c'', PlayerX)]"
  by code_simp

subsection \<open>The move timer\<close>

lemma timersOk_init: "timersOk initServer"
  by (simp add: timersOk_def initServer_def)

lemma timersOk_But: "timersOk s \<Longrightarrow> timersOkBut r s"
  by (simp add: timersOk_def timersOkBut_def)

lemma timersOkBut_frame:
  "timersOkBut r s \<Longrightarrow> (\<And>r'. r' \<noteq> r \<Longrightarrow> games s' r' = games s r' \<and> moveTimers s' r' = moveTimers s r')
   \<Longrightarrow> timersOkBut r s'"
  by (simp add: timersOkBut_def)

lemma timersOk_startMoveTimer:
  assumes "timersOkBut r s"
  shows "timersOk (startMoveTimer now r s)"
  unfolding timersOk_def
proof (intro allI impI)
  fix r' g
  assume g: "games (startMoveTimer now r s) r' = Some g" and p: "gameStatus g = Playing"
  show "\<exists>t. turnStartTime g = Some t \<and> moveTimers (startMoveTimer now r s) r' = Some (t + MOVE_TIMEOUT)"
  proof (cases "r' = r")
    case True
    with g p show ?thesis
      by (auto simp: startMoveTimer_def split: option.splits if_splits)
  next
    case False
    with g have "games s r' = Some g" "moveTimers (startMoveTimer now r s) r' = moveTimers s r'"
      by (auto simp: startMoveTimer_def split: option.splits if_splits)
    with assms False p show ?thesis by (simp add: timersOkBut_def)
  qed
qed

lemma timersOk_stopped:
  assumes "timersOkBut r s" and "\<And>g. games s r = Some g \<Longrightarrow> gameStatus g \<noteq> Playing"
  shows "timersOk s"
  unfolding timersOk_def
proof (intro allI impI)
  fix r' g
  assume g: "games s r' = Some g" and p: "gameStatus g = Playing"
  with assms(2) have "r' \<noteq> r" by auto
  with assms(1) g p show "\<exists>t. turnStartTime g = Some t \<and> moveTimers s r' = Some (t + MOVE_TIMEOUT)"
    by (simp add: timersOkBut_def)
qed

lemma timersOk_checkRateLimit: "timersOk (snd (checkRateLimit now k s)) = timersOk s"
  by (simp add: timersOk_def)

lemma timersOk_cleanupRoom: "timersOk s \<Longrightarrow> timersOk (cleanupRoom r s)"
  by (auto simp: timersOk_def cleanupRoom_def clearRoomTimers_def)

lemma timersOk_placeSymbol: "timersOk s \<Longrightarrow> timersOk (placeSymbol now r p i g s)"
proof -
  assume "timersOk s"
  then have b: "timersOkBut r s" by (rule timersOk_But)
  show ?thesis
  proof (cases "checkWinner ((board g)[nat i := Mark p])")
    case None
    then show ?thesis
      by (auto simp: placeSymbol_def Let_def intro!: timersOk_startMoveTimer timersOkBut_frame[OF b])
  next
    case (Some res)
    then show ?thesis
      by (cases res)
        (auto simp: placeSymbol_def Let_def intro!: timersOk_stopped[where r = r] timersOkBut_frame[OF b])
  qed
qed

lemma timersOk_takeSymbol: "timersOk s \<Longrightarrow> timersOk (takeSymbol now r p i g s)"
  unfolding takeSymbol_def
  by (rule timersOk_startMoveTimer, rule timersOkBut_frame[OF timersOk_But]) simp_all

lemma timersOk_makeMove: "timersOk s \<Longrightarrow> timersOk (snd (makeMove now k r i s))"
  by (auto simp: makeMove_unfold Let_def timersOk_checkRateLimit
      intro!: timersOk_placeSymbol
      split: option.splits member_role.splits cell.splits)

lemma timersOk_removeSymbol: "timersOk s \<Longrightarrow> timersOk (snd (removeSymbol now k r i s))"
  by (auto simp: removeSymbol_unfold Let_def timersOk_checkRateLimit
      intro!: timersOk_takeSymbol
      split: option.splits member_role.splits cell.splits)

lemma timersOk_rematch: "timersOk s \<Longrightarrow> timersOk (snd (rematch now k r s))"
  by (auto simp: rematch_def Let_def split: option.splits member_role.splits
      intro!: timersOk_startMoveTimer timersOkBut_frame[OF timersOk_But])


lemma timersOk_players_update [simp]: "timersOk (s \<lparr> players := ps \<rparr>) = timersOk s"
  by (simp add: timersOk_def)

lemma timersOk_rateLimits_update [simp]: "timersOk (s \<lparr> rateLimits := rl \<rparr>) = timersOk s"
  by (simp add: timersOk_def)

lemma timersOk_new_room:
  assumes "timersOk s"
  shows "timersOk (startRoomExpiryTimer now r
           (s \<lparr> games := (games s)(r \<mapsto> createGame now), players := ps \<rparr>))"
  by (rule timersOk_stopped[where r = r], rule timersOkBut_frame[OF timersOk_But[OF assms]])
    (simp_all add: startRoomExpiryTimer_def createGame_def)

lemma timersOk_start_game:
  assumes "timersOk s" and "games s' = (games s)(r \<mapsto> g)" and "moveTimers s' = moveTimers s"
  shows "timersOk (startMoveTimer now r s')"
  by (rule timersOk_startMoveTimer, rule timersOkBut_frame[OF timersOk_But[OF assms(1)]])
    (simp_all add: assms(2,3))

lemma timersOk_joinGame:
  assumes "timersOk s"
  shows "timersOk (snd (joinGame now k r name gen s))"
proof -
  define s1 where "s1 = (if games s r = None
                 then startRoomExpiryTimer now r
                        (s \<lparr> games := (games s)(r \<mapsto> createGame now),
                              players := AList.update r [] (players s) \<rparr>)
                 else s)"
  have ok1: "timersOk s1"
    unfolding s1_def using assms by (simp add: timersOk_new_room)
  show ?thesis
    using ok1 assms unfolding joinGame_def s1_def[symmetric] Let_def
    by (auto split: option.splits intro!: timersOk_start_game[where s = s1])
qed

lemma timersOk_disconnectRoom:
  assumes "timersOk s"
  shows "timersOk (disconnectRoom k r s)"
proof (cases "map_of (players s) r")
  case None
  then show ?thesis using assms by (simp add: disconnectRoom_def)
next
  case (Some ps)
  show ?thesis
  proof (cases "map_of ps k")
    case None
    then show ?thesis using Some assms by (simp add: disconnectRoom_def)
  next
    case (Some p)
    let ?s1 = "s \<lparr> players := AList.update r (AList.delete k ps) (players s) \<rparr>"
    have ok1: "timersOk ?s1" using assms by simp
    have paused: "\<And>g. timersOk (?s1 \<lparr> games := (games ?s1)(r \<mapsto> g \<lparr> gameStatus := Waiting \<rparr>),
                        moveTimers := (moveTimers ?s1)(r := None) \<rparr>)"
      by (rule timersOk_stopped[where r = r], rule timersOkBut_frame[OF timersOk_But[OF ok1]]) simp_all
    show ?thesis
      using \<open>map_of (players s) r = Some ps\<close> Some ok1 paused
      by (simp add: disconnectRoom_def Let_def timersOk_cleanupRoom split: option.splits)
  qed
qed

lemma timersOk_disconnect: "timersOk s \<Longrightarrow> timersOk (snd (disconnect k s))"
proof -
  assume "timersOk s"
  then have "timersOk (fold (disconnectRoom k) (map fst (players s)) s)"
    by (rule fold_preserves[where P = timersOk, rotated]) (rule timersOk_disconnectRoom)
  then show ?thesis by (simp add: disconnect_def Let_def)
qed

lemma timersOk_moveTimerCallback_cleared:
  assumes "timersOk s"
  shows "timersOk (moveTimerCallback r (s \<lparr> moveTimers := (moveTimers s)(r := None) \<rparr>))"
  by (rule timersOk_stopped[where r = r], rule timersOkBut_frame[OF timersOk_But[OF assms]])
    (auto simp: moveTimerCallback_def Let_def split: option.splits if_splits)

lemma timersOk_moveTimerFired: "timersOk s \<Longrightarrow> timersOk (snd (moveTimerFired now r s))"
  by (simp add: moveTimerFired_def timersOk_moveTimerCallback_cleared split: option.splits)

lemma timersOk_expiryTimerFired: "timersOk s \<Longrightarrow> timersOk (snd (expiryTimerFired now r s))"
  by (simp add: expiryTimerFired_def timersOk_cleanupRoom split: option.splits)

lemma timersOk_handle: "timersOk s \<Longrightarrow> timersOk (snd (handle e s))"
  by (cases e)
    (simp_all add: timersOk_joinGame timersOk_makeMove timersOk_removeSymbol timersOk_rematch
      timersOk_disconnect timersOk_moveTimerFired timersOk_expiryTimerFired)

lemma reachable_timersOk: "reachable s \<Longrightarrow> timersOk s"
  by (induction rule: reachable.induct) (simp_all add: timersOk_init timersOk_handle)


lemma moveTimerCallback_idle:
  "(case games s r of None \<Rightarrow> True | Some g \<Rightarrow> gameStatus g \<noteq> Playing) \<Longrightarrow> moveTimerCallback r s = s"
  by (simp add: moveTimerCallback_def split: option.splits)

lemma moveTimerFired_early:
  "moveTimers s r = Some d \<Longrightarrow> now < d \<Longrightarrow> moveTimerFired now r s = (Ignored, s)"
  by (simp add: moveTimerFired_def)

lemma moveTimerFired_due:
  assumes "moveTimers s r = Some d" and "d \<le> now" and "games s r = Some g" and "gameStatus g = Playing"
  shows "fst (moveTimerFired now r s) = Accepted \<and>
         games (snd (moveTimerFired now r s)) =
           (games s)(r \<mapsto> g \<lparr> winner := Some (Won (other (currentPlayer g))), gameStatus := Finished,
                                scores := incScore (Won (other (currentPlayer g))) (scores g) \<rparr>)"
  using assms by (simp add: moveTimerFired_def moveTimerCallback_def Let_def)

lemma incScore_scoreOf:
  "scoreOf p (incScore (Won p) sc) = scoreOf p sc + 1"
  "scoreOf (other p) (incScore (Won p) sc) = scoreOf (other p) sc"
  "score_draws (incScore (Won p) sc) = score_draws sc"
  by (cases p; simp)+

lemma other_other [simp]: "other (other p) = p"
  by (cases p) simp_all

lemma placeSymbol_timer:
  assumes "games s r = Some g" and "gameStatus g = Playing"
  shows "\<exists>g'. games (placeSymbol now r p i g s) r = Some g' \<and>
     (if gameStatus g' = Playing
      then turnStartTime g' = Some now \<and> moveTimers (placeSymbol now r p i g s) r = Some (now + MOVE_TIMEOUT)
      else moveTimers (placeSymbol now r p i g s) r = None)"
proof (cases "checkWinner ((board g)[nat i := Mark p])")
  case None
  then show ?thesis using assms by (simp add: placeSymbol_def Let_def startMoveTimer_def)
next
  case (Some res)
  then show ?thesis using assms by (cases res) (simp add: placeSymbol_def Let_def)
qed

lemma takeSymbol_timer:
  assumes "gameStatus g = Playing"
  shows "\<exists>g'. games (takeSymbol now r p i g s) r = Some g' \<and> gameStatus g' = Playing \<and>
     turnStartTime g' = Some now \<and> moveTimers (takeSymbol now r p i g s) r = Some (now + MOVE_TIMEOUT)"
  using assms by (auto simp: takeSymbol_def startMoveTimer_def)

lemma makeMove_accepted_timer:
  assumes "fst (makeMove now k r i s) = Accepted"
  shows "\<exists>g'. games (snd (makeMove now k r i s)) r = Some g' \<and>
     (if gameStatus g' = Playing
      then turnStartTime g' = Some now \<and> moveTimers (snd (makeMove now k r i s)) r = Some (now + MOVE_TIMEOUT)
      else moveTimers (snd (makeMove now k r i s)) r = None)"
proof -
  let ?s = "snd (checkRateLimit now k s)"
  from makeMove_accepted_game[OF assms] obtain g where g: "games s r = Some g" ..
  from assms g obtain p where
    acc: "snd (makeMove now k r i s) = placeSymbol now r p i g ?s" and
    st: "gameStatus g = Playing"
    by (auto simp: makeMove_unfold Let_def split: option.splits member_role.splits cell.splits if_splits)
  have "games ?s r = Some g" using g by simp
  from placeSymbol_timer[OF this st, of now p i] show ?thesis
    unfolding acc by blast
qed

lemma removeSymbol_accepted_timer:
  assumes "fst (removeSymbol now k r i s) = Accepted"
  shows "\<exists>g'. games (snd (removeSymbol now k r i s)) r = Some g' \<and> gameStatus g' = Playing \<and>
     turnStartTime g' = Some now \<and> moveTimers (snd (removeSymbol now k r i s)) r = Some (now + MOVE_TIMEOUT)"
proof -
  let ?s = "snd (checkRateLimit now k s)"
  from removeSymbol_accepted_game[OF assms] obtain g where g: "games s r = Some g" ..
  from assms g obtain p where
    acc: "snd (removeSymbol now k r i s) = takeSymbol now r p i g ?s" and
    st: "gameStatus g = Playing"
    by (auto simp: removeSymbol_unfold Let_def split: option.splits member_role.splits cell.splits if_splits)
  from takeSymbol_timer[OF st, of now r p i ?s] show ?thesis
    unfolding acc by blast
qed

lemma makeMove_rejected_state:
  "fst (makeMove now k r i s) \<noteq> Accepted \<Longrightarrow> snd (makeMove now k r i s) = snd (checkRateLimit now k s)"
  by (auto simp: makeMove_unfold Let_def split: option.splits member_role.splits cell.splits if_splits)

lemma removeSymbol_rejected_state:
  "fst (removeSymbol now k r i s) \<noteq> Accepted \<Longrightarrow> snd (removeSymbol now k r i s) = snd (checkRateLimit now k s)"
  by (auto simp: removeSymbol_unfold Let_def split: option.splits member_role.splits cell.splits if_splits)

lemma makeMove_timer:
  "if fst (makeMove now k r i s) = Accepted
   then \<exists>g'. games (snd (makeMove now k r i s)) r = Some g' \<and>
          (if gameStatus g' = Playing
           then turnStartTime g' = Some now \<and>
                moveTimers (snd (makeMove now k r i s)) r = Some (now + MOVE_TIMEOUT)
           else moveTimers (snd (makeMove now k r i s)) r = None)
   else games (snd (makeMove now k r i s)) = games s \<and>
        moveTimers (snd (makeMove now k r i s)) = moveTimers s"
  by (simp add: makeMove_accepted_timer makeMove_rejected_state)

lemma removeSymbol_timer:
  "if fst (removeSymbol now k r i s) = Accepted
   then \<exists>g'. games (snd (removeSymbol now k r i s)) r = Some g' \<and> gameStatus g' = Playing \<and>
          turnStartTime g' = Some now \<and>
          moveTimers (snd (removeSymbol now k r i s)) r = Some (now + MOVE_TIMEOUT)
   else games (snd (removeSymbol now k r i s)) = games s \<and>
        moveTimers (snd (removeSymbol now k r i s)) = moveTimers s"
  by (simp add: removeSymbol_accepted_timer removeSymbol_rejected_state)

lemma forfeit_game:
  assumes "moveTimers s r = Some d" and "d \<le> now" and "games s r = Some g" and "gameStatus g = Playing"
  shows "fst (moveTimerFired now r s) = Accepted \<and>
         (\<exists>g'. games (snd (moveTimerFired now r s)) = (games s)(r \<mapsto> g') \<and>
            gameStatus g' = Finished \<and>
            winner g' = Some (Won (other (currentPlayer g))) \<and>
            scoreOf (other (currentPlayer g)) (scores g') = scoreOf (other (currentPlayer g)) (scores g) + 1 \<and>
            scoreOf (currentPlayer g) (scores g') = scoreOf (currentPlayer g) (scores g) \<and>
            score_draws (scores g') = score_draws (scores g) \<and>
            board g' = board g \<and> moves g' = moves g \<and> currentPlayer g' = currentPlayer g)"
proof -
  let ?g' = "g \<lparr> winner := Some (Won (other (currentPlayer g))), gameStatus := Finished,
                 scores := incScore (Won (other (currentPlayer g))) (scores g) \<rparr>"
  from moveTimerFired_due[OF assms]
  have a: "fst (moveTimerFired now r s) = Accepted"
    and b: "games (snd (moveTimerFired now r s)) = (games s)(r \<mapsto> ?g')" by simp_all
  have c: "scoreOf (other (currentPlayer g)) (scores ?g') = scoreOf (other (currentPlayer g)) (scores g) + 1"
    "scoreOf (currentPlayer g) (scores ?g') = scoreOf (currentPlayer g) (scores g)"
    "score_draws (scores ?g') = score_draws (scores g)"
    using incScore_scoreOf[of "other (currentPlayer g)" "scores g"] by simp_all
  show ?thesis
    using b c by (intro conjI[OF a] exI[of _ ?g']) (simp del: incScore.simps scoreOf.simps)
qed

text \<open>
  Claim C6. In every reachable state of the hardened server a game with status
  \<^verbatim>\<open>"playing"\<close> has a recorded turn start \<open>t\<close> and a pending move timer due at
  \<open>t + MOVE_TIMEOUT\<close>. The timer does not fire before that time. When it fires, the
  game of the room becomes \<^verbatim>\<open>"finished"\<close>, its winner is the player who is not to
  move, that player's score goes up by exactly 1, and the other score, the draws, the
  board, the move lists and the player to move stay as they were. The callback reads the
  game of the room from the current state and does nothing at all when there is no game
  or its status is not \<^verbatim>\<open>"playing"\<close>. An accepted placement that leaves the game open
  and every accepted removal record the time of the request as the new turn start and
  replace the timer by one due \<open>MOVE_TIMEOUT\<close> later; an accepted placement that ends
  the game clears the timer; a rejected request leaves games and timers as they were.
\<close>

theorem move_timeout_forfeit:
  assumes "reachable s" and "games s r = Some g" and "gameStatus g = Playing"
  shows "(\<exists>t. turnStartTime g = Some t \<and> moveTimers s r = Some (t + MOVE_TIMEOUT) \<and>
           (now < t + MOVE_TIMEOUT \<longrightarrow> moveTimerFired now r s = (Ignored, s)) \<and>
           (t + MOVE_TIMEOUT \<le> now \<longrightarrow>
              fst (moveTimerFired now r s) = Accepted \<and>
              (\<exists>g'. games (snd (moveTimerFired now r s)) = (games s)(r \<mapsto> g') \<and>
                 gameStatus g' = Finished \<and>
                 winner g' = Some (Won (other (currentPlayer g))) \<and>
                 scoreOf (other (currentPlayer g)) (scores g') = scoreOf (other (currentPlayer g)) (scores g) + 1 \<and>
                 scoreOf (currentPlayer g) (scores g') = scoreOf (currentPlayer g) (scores g) \<and>
                 score_draws (scores g') = score_draws (scores g) \<and>
                 board g' = board g \<and> moves g' = moves g \<and> currentPlayer g' = currentPlayer g))) \<and>
         ((case games s' r' of None \<Rightarrow> True | Some h \<Rightarrow> gameStatus h \<noteq> Playing)
            \<longrightarrow> moveTimerCallback r' s' = s') \<and>
         (if fst (makeMove now' k r i s) = Accepted
          then \<exists>g'. games (snd (makeMove now' k r i s)) r = Some g' \<and>
                 (if gameStatus g' = Playing
                  then turnStartTime g' = Some now' \<and>
                       moveTimers (snd (makeMove now' k r i s)) r = Some (now' + MOVE_TIMEOUT)
                  else moveTimers (snd (makeMove now' k r i s)) r = None)
          else games (snd (makeMove now' k r i s)) = games s \<and>
               moveTimers (snd (makeMove now' k r i s)) = moveTimers s) \<and>
         (if fst (removeSymbol now' k r i s) = Accepted
          then \<exists>g'. games (snd (removeSymbol now' k r i s)) r = Some g' \<and> gameStatus g' = Playing \<and>
                 turnStartTime g' = Some now' \<and>
                 moveTimers (snd (removeSymbol now' k r i s)) r = Some (now' + MOVE_TIMEOUT)
          else games (snd (removeSymbol now' k r i s)) = games s \<and>
               moveTimers (snd (removeSymbol now' k r i s)) = moveTimers s)"
proof -
  from reachable_timersOk[OF assms(1)] assms(2,3)
  obtain t where t: "turnStartTime g = Some t" and d: "moveTimers s r = Some (t + MOVE_TIMEOUT)"
    by (auto simp: timersOk_def)
  have early: "now < t + MOVE_TIMEOUT \<longrightarrow> moveTimerFired now r s = (Ignored, s)"
    using d by (simp add: moveTimerFired_early)
  note due = forfeit_game[OF d _ assms(2,3), of now]
  have idle: "(case games s' r' of None \<Rightarrow> True | Some h \<Rightarrow> gameStatus h \<noteq> Playing)
            \<longrightarrow> moveTimerCallback r' s' = s'"
    by (simp add: moveTimerCallback_idle)
  show ?thesis
    apply (intro conjI)
       apply (rule exI[of _ t])
       apply (intro conjI impI t d early[rule_format])
        apply assumption
       apply (erule due[THEN conjunct1])
      apply (erule due[THEN conjunct2])
     apply (rule idle)
     apply (rule makeMove_timer)
    apply (rule removeSymbol_timer)
    done
qed

theorem move_timeout_forfeit_witness:
  "reachable (run twoPlayers initServer) \<and>
   gameStatus (the (games (run twoPlayers initServer) ''room1'')) = Playing \<and>
   currentPlayer (the (games (run twoPlayers initServer) ''room1'')) = PlayerX \<and>
   turnStartTime (the (games (run twoPlayers initServer) ''room1'')) = Some 1 \<and>
   moveTimers (run twoPlayers initServer) ''room1'' = Some 30001 \<and>
   moveTimerFired 30000 ''room1'' (run twoPlayers initServer) = (Ignored, run twoPlayers initServer) \<and>
   fst (moveTimerFired 30001 ''room1'' (run twoPlayers initServer)) = Accepted \<and>
   gameStatus (the (games (snd (moveTimerFired 30001 ''room1'' (run twoPlayers initServer))) ''room1'')) = Finished \<and>
   winner (the (games (snd (moveTimerFired 30001 ''room1'' (run twoPlayers initServer))) ''room1''))
     = Some (Won PlayerO) \<and>
   score_O (scores (the (games (snd (moveTimerFired 30001 ''room1'' (run twoPlayers initServer))) ''room1''))) = 1 \<and>
   gameStatus (the (games (run wonGame initServer) ''room1'')) = Finished \<and>
   moveTimerCallback ''room1'' (run wonGame initServer) = run wonGame initServer \<and>
   fst (makeMove 2000 ''a'' ''room1'' 0 (run twoPlayers initServer)) = Accepted \<and>
   turnStartTime (the (games (snd (makeMove 2000 ''a'' ''room1'' 0 (run twoPlayers initServer))) ''room1''))
     = Some 2000"
proof -
  let ?s = "run twoPlayers initServer" and ?w = "run wonGame initServer"
  let ?g = "the (games ?s ''room1'')"
  have h1: "reachable ?s" by (rule reachable_run_init)
  have h2: "games ?s ''room1'' = Some ?g" by (rule the_Some) code_simp
  have h3: "gameStatus ?g = Playing" by code_simp
  have e1: "currentPlayer ?g = PlayerX" by code_simp
  have e2: "turnStartTime ?g = Some 1" by code_simp
  have e3: "score_O (scores ?g) = 0" by code_simp
  have e4: "case games ?w ''room1'' of None \<Rightarrow> True | Some h \<Rightarrow> gameStatus h \<noteq> Playing" by code_simp
  have e5: "gameStatus (the (games ?w ''room1'')) = Finished" by code_simp
  have e6: "fst (makeMove 2000 ''a'' ''room1'' 0 ?s) = Accepted" by code_simp
  have e7: "gameStatus (the (games (snd (makeMove 2000 ''a'' ''room1'' 0 ?s)) ''room1'')) = Playing" by code_simp
  note A = move_timeout_forfeit[OF h1 h2 h3, of 30000 ?w "''room1''" 2000 "''a''" 0]
  note B = move_timeout_forfeit[OF h1 h2 h3, of 30001 ?w "''room1''" 2000 "''a''" 0]
  from A e2 have a1: "moveTimers ?s ''room1'' = Some 30001"
    and a2: "moveTimerFired 30000 ''room1'' ?s = (Ignored, ?s)"
    by (auto simp: MOVE_TIMEOUT_def)
  from A e4 have a3: "moveTimerCallback ''room1'' ?w = ?w" by blast
  from A e6 e7 have a4: "turnStartTime (the (games (snd (makeMove 2000 ''a'' ''room1'' 0 ?s)) ''room1'')) = Some 2000"
    by auto
  from B e2 have "fst (moveTimerFired 30001 ''room1'' ?s) = Accepted \<and>
       (\<exists>g'. games (snd (moveTimerFired 30001 ''room1'' ?s)) = (games ?s)(''room1'' \<mapsto> g') \<and>
          gameStatus g' = Finished \<and>
          winner g' = Some (Won (other (currentPlayer ?g))) \<and>
          scoreOf (other (currentPlayer ?g)) (scores g') = scoreOf (other (currentPlayer ?g)) (scores ?g) + 1)"
    by (auto simp: MOVE_TIMEOUT_def)
  then have b: "fst (moveTimerFired 30001 ''room1'' ?s) = Accepted"
    "gameStatus (the (games (snd (moveTimerFired 30001 ''room1'' ?s)) ''room1'')) = Finished"
    "winner (the (games (snd (moveTimerFired 30001 ''room1'' ?s)) ''room1'')) = Some (Won PlayerO)"
    "score_O (scores (the (games (snd (moveTimerFired 30001 ''room1'' ?s)) ''room1''))) = 1"
    using e1 e3 by auto
  from h1 h3 e1 e2 a1 a2 a3 a4 b e5 e6 show ?thesis by simp
qed

end
